theory Spec2Isabelle
  imports Complex_Main "HOL-Library.Word"
begin

section \<open>Machine types\<close>

text \<open>
  The OpenCL host types of \<^verbatim>\<open>setup_cl.c\<close>. \<^verbatim>\<open>cl_uint\<close> and \<^verbatim>\<open>cl_int\<close> are 32 bits wide
  (a \<^verbatim>\<open>cl_int\<close> is read with \<open>sint\<close>), \<^verbatim>\<open>cl_ulong\<close> is 64 bits wide. \<^verbatim>\<open>size_t\<close> is taken
  as 64 bits wide (an LP64 or LLP64 host), so that arithmetic mixing \<^verbatim>\<open>size_t\<close> and
  \<^verbatim>\<open>cl_ulong\<close> is plain unsigned 64-bit arithmetic: \<open>+\<close>, \<open>-\<close> and \<open>*\<close> wrap around.
  A \<^verbatim>\<open>cl_double\<close> field of a structure holds a finite double, which is a real number.
  The arithmetic on doubles is not the arithmetic of the reals; it is modelled in the
  section on the cost estimator.
\<close>

type_synonym cl_uint = "32 word"
type_synonym cl_int = "32 word"
type_synonym cl_ulong = "64 word"
type_synonym size_t = "64 word"
type_synonym cl_double = real

definition CL_ULONG_MAX :: cl_ulong where
  "CL_ULONG_MAX = 18446744073709551615"

definition CL_SUCCESS :: cl_int where
  "CL_SUCCESS = 0"

text \<open>\<^verbatim>\<open>MW_CL_ERROR\<close> is declared in \<^verbatim>\<open>milkyway_cl.h\<close>; only its being different from
  \<^verbatim>\<open>CL_SUCCESS\<close> matters here.\<close>

definition MW_CL_ERROR :: cl_int where
  "MW_CL_ERROR = 1"

text \<open>\<^verbatim>\<open>cl_device_type\<close> is a 64-bit bit field; \<^verbatim>\<open>CL_DEVICE_TYPE_CPU\<close> is bit 1 in OpenCL's
  \<^verbatim>\<open>cl.h\<close>.\<close>

definition CL_DEVICE_TYPE_CPU :: cl_ulong where
  "CL_DEVICE_TYPE_CPU = 2"

definition NUM_CONST_BUF_ARGS :: cl_uint where
  "NUM_CONST_BUF_ARGS = 5"

definition maxILKernelStreams :: cl_uint where
  "maxILKernelStreams = 4"

section \<open>Data model\<close>

text \<open>
  Modelled from the spec: the declarations of \<^verbatim>\<open>IntegralArea\<close>, \<^verbatim>\<open>AstronomyParameters\<close>,
  \<^verbatim>\<open>DevInfo\<close>, \<^verbatim>\<open>CLRequest\<close>, \<^verbatim>\<open>WGInfo\<close>, \<^verbatim>\<open>RunSizes\<close>, \<^verbatim>\<open>SeparationSizes\<close> and of the
  enumeration \<^verbatim>\<open>MWCALtargetEnum\<close> are in headers that are not in the sources at hand. The
  spec's data model names the structures; the fields below are the ones \<^verbatim>\<open>setup_cl.c\<close>
  reads and writes, with the widths its \<^verbatim>\<open>printf\<close> formats, casts and local variables
  give them. The step and stream counts are taken as unsigned. \<^verbatim>\<open>local[0]\<close> and
  \<^verbatim>\<open>global[0]\<close> are the only elements of the work-size arrays the file touches. Of the
  enumeration only the three targets the file names matter; \<open>MW_CAL_TARGET_OTHER\<close> stands
  for every other one.
\<close>

record IntegralArea =
  r_steps :: cl_uint
  mu_steps :: cl_uint
  nu_steps :: cl_uint

record AstronomyParameters =
  number_streams :: cl_uint
  convolve :: cl_uint
  aux_bg_profile :: bool
  number_integrals :: cl_uint

datatype MWCALtargetEnum =
  MW_CAL_TARGET_770 | MW_CAL_TARGET_CYPRESS | MW_CAL_TARGET_CAYMAN | MW_CAL_TARGET_OTHER

record DevInfo =
  devType :: cl_ulong
  nonOutput :: bool
  warpSize :: cl_uint
  maxCompUnits :: cl_uint
  maxWorkItemSizes :: "size_t \<times> size_t \<times> size_t"
  memSize :: cl_ulong
  maxMemAlloc :: cl_ulong
  maxConstArgs :: cl_uint
  maxConstBufSize :: cl_ulong
  calTarget :: MWCALtargetEnum

record CLRequest =
  targetFrequency :: cl_double
  magicFactor :: cl_int
  nonResponsive :: bool
  forceNoILKernel :: bool
  verbose :: bool

record WGInfo =
  wgs :: size_t

record RunSizes =
  r :: cl_uint
  mu :: cl_uint
  nu :: cl_uint
  area :: cl_ulong
  nChunkEstimate :: size_t
  nChunk :: size_t
  chunkSize :: size_t
  extra :: cl_uint
  effectiveArea :: cl_ulong
  local0 :: size_t
  global0 :: size_t

text \<open>
  What \<^verbatim>\<open>findRunSizes\<close> gets from outside. \<^verbatim>\<open>mwGetWorkGroupInfo\<close>, which is not in the sources
  at hand, returns an error code and fills in a \<^verbatim>\<open>WGInfo\<close>.

  \<open>quotientAsUInt\<close> is the double arithmetic of the host in \<^verbatim>\<open>findNChunk\<close>. Line 93 and lines
  104 to 112 compute, in doubles, \<^verbatim>\<open>estIterTime / timePerIter\<close> from the throughput estimate
  \<^verbatim>\<open>mwDeviceEstimateGFLOPs(di, DOUBLEPREC)\<close> (a collaborator that is not in the sources at
  hand), the integer \<^verbatim>\<open>perIter\<close> and the target frequency of the request, and line 112
  casts the quotient to \<^verbatim>\<open>cl_uint\<close>. \<open>quotientAsUInt env di p clr\<close> is the value of the local
  \<^verbatim>\<open>nChunk\<close> after line 112 for the device \<open>di\<close>, \<^verbatim>\<open>perIter\<close> \<open>= p\<close> and the request \<open>clr\<close>, and
  \<open>None\<close> where the cast is undefined in C. The planner only passes this number on, so
  it is a field of the environment and what is proved of the planner holds for every
  host; \<open>binary64_quotientAsUInt\<close> below is this number on a host with IEEE 754 doubles.
\<close>

record PlanEnv =
  mwGetWorkGroupInfo :: "cl_int \<times> WGInfo"
  quotientAsUInt :: "DevInfo \<Rightarrow> cl_ulong \<Rightarrow> CLRequest \<Rightarrow> cl_uint option"

section \<open>Undefined behaviour and results\<close>

text \<open>
  An integer division or remainder by zero and a conversion of an out-of-range
  \<^verbatim>\<open>double\<close> to \<^verbatim>\<open>cl_uint\<close> are undefined in C; on the usual hosts the first one traps.
  The model makes both a result of their own.
\<close>

datatype fault = DivideByZero | DoubleToUIntOutOfRange

text \<open>Every \<^verbatim>\<open>return CL_TRUE\<close> of \<^verbatim>\<open>findRunSizes\<close>, named after the message printed before it.\<close>

datatype plan_error =
  AreaOverflows
  | WorkGroupInfoFailed
  | NotMultipleOfWarpSize
  | TooLazyForLargeWorkunit
  | EffectiveAreaLessThanArea

text \<open>
  \<^verbatim>\<open>findRunSizes\<close> writes through its \<^verbatim>\<open>RunSizes*\<close> argument and returns \<^verbatim>\<open>CL_TRUE\<close> on
  error: \<open>Failed e s\<close> is a return of \<^verbatim>\<open>CL_TRUE\<close> that leaves \<open>s\<close> in the caller's
  structure, \<open>Planned s\<close> a return of \<^verbatim>\<open>CL_FALSE\<close>.
\<close>

datatype outcome = Undefined fault | Failed plan_error RunSizes | Planned RunSizes

section \<open>Integer helpers\<close>

text \<open>
  Modelled from the spec: the macros \<^verbatim>\<open>mwDivRoundup\<close> and \<^verbatim>\<open>mwDivisible\<close> of
  \<^verbatim>\<open>milkyway_util.h\<close> are not in the sources at hand. The spec reads them as
  \<open>ceil(a / b)\<close> on integers and as "is an exact multiple of". Both divide by their
  second argument, so every caller below first checks that it is not zero.
\<close>

definition mwDivRoundup :: "size_t \<Rightarrow> size_t \<Rightarrow> size_t" where
  "mwDivRoundup a b = (if a mod b \<noteq> 0 then a div b + 1 else a div b)"

definition mwDivisible :: "size_t \<Rightarrow> size_t \<Rightarrow> bool" where
  "mwDivisible x n \<longleftrightarrow> x mod n = 0"

section \<open>Cost estimator\<close>

text \<open>
  The integer part of \<^verbatim>\<open>estimateWUGFLOPsPerIter\<close>, lines 85 to 91: the local \<^verbatim>\<open>perIter\<close>.
  \<^verbatim>\<open>32 + ap->number_streams * 68\<close> and \<^verbatim>\<open>ap->number_streams * 2\<close> are computed in 32 bits and
  then widened; the other operations are 64-bit ones. The function returns
  \<^verbatim>\<open>1.0e-9 * (cl_double) perIter\<close>, a double.
\<close>

definition perIter :: "AstronomyParameters \<Rightarrow> IntegralArea \<Rightarrow> cl_ulong" where
  "perIter ap ia =
     (let tmp = (ucast (32 + number_streams ap * 68) :: cl_ulong);
          tmp = (if aux_bg_profile ap then tmp + 8 else tmp);
          perItem = tmp * ucast (convolve ap) + 1 + ucast (number_streams ap * 2)
      in perItem * ucast (mu_steps ia) * ucast (r_steps ia))"

text \<open>
  \<^verbatim>\<open>findNChunk\<close>: the cast of line 112, as the host computes it, and the replacement of
  zero by one of line 114. \<open>None\<close> is an undefined cast.
\<close>

definition findNChunk ::
  "PlanEnv \<Rightarrow> AstronomyParameters \<Rightarrow> IntegralArea \<Rightarrow> DevInfo \<Rightarrow> CLRequest \<Rightarrow> cl_uint option" where
  "findNChunk env ap ia di clr =
     (case quotientAsUInt env di (perIter ap ia) clr of
        None \<Rightarrow> None
      | Some n \<Rightarrow> Some (if n = 0 then 1 else n))"

subsection \<open>Doubles\<close>

text \<open>
  The doubles of IEEE 754 binary64, as far as \<^verbatim>\<open>findNChunk\<close> can tell them apart: the finite
  ones by their value, one infinity and one NaN. The sign of a zero and the sign of an
  infinity are not kept: \<^verbatim>\<open>findNChunk\<close> takes no sum or difference, either zero is cast to 0,
  and the cast of either infinity is undefined.
\<close>

datatype double = Finite real | Infinite | NaN

text \<open>The number of binary digits of a natural number, and \<open>\<lfloor>log\<^sub>2 x\<rfloor>\<close> for \<open>x > 0\<close>
  computed with it.\<close>

fun bitlen :: "nat \<Rightarrow> nat" where
  "bitlen n = (if n = 0 then 0 else Suc (bitlen (n div 2)))"

definition pow2 :: "int \<Rightarrow> real" where
  "pow2 e = (if 0 \<le> e then 2 ^ nat e else 1 / 2 ^ nat (- e))"

definition ilog2 :: "real \<Rightarrow> int" where
  "ilog2 x = (if 1 \<le> x then int (bitlen (nat \<lfloor>x\<rfloor>)) - 1
              else - int (bitlen (nat (\<lceil>1 / x\<rceil> - 1))))"

definition round_half_even :: "real \<Rightarrow> int" where
  "round_half_even x =
     (let f = \<lfloor>x\<rfloor>
      in if x - of_int f < 1 / 2 then f
         else if 1 / 2 < x - of_int f then f + 1
         else if even f then f else f + 1)"

text \<open>
  Rounding to the nearest double, ties to the even significand (the default rounding
  mode): a double is a multiple of \<open>2 ^ q\<close> with a significand of at most 53 bits, where
  \<open>q\<close> is at least \<open>-1074\<close> (below \<open>2 ^ -1022\<close> the doubles are subnormal), and what rounds to
  \<open>2 ^ 1024\<close> or more is an infinity.
\<close>

definition to_binary64 :: "real \<Rightarrow> double" where
  "to_binary64 x =
     (if x = 0 then Finite 0
      else (let q = max (ilog2 \<bar>x\<bar> - 52) (- 1074);
                y = of_int (round_half_even (x / pow2 q)) * pow2 q
            in if 2 ^ 1024 \<le> \<bar>y\<bar> then Infinite else Finite y))"

text \<open>The product and the quotient of two doubles: the exact result, rounded once.\<close>

fun double_mult :: "double \<Rightarrow> double \<Rightarrow> double" where
  "double_mult (Finite x) (Finite y) = to_binary64 (x * y)"
| "double_mult (Finite x) Infinite = (if x = 0 then NaN else Infinite)"
| "double_mult Infinite (Finite y) = (if y = 0 then NaN else Infinite)"
| "double_mult Infinite Infinite = Infinite"
| "double_mult NaN y = NaN"
| "double_mult x NaN = NaN"

fun double_div :: "double \<Rightarrow> double \<Rightarrow> double" where
  "double_div (Finite x) (Finite y) =
     (if y = 0 then (if x = 0 then NaN else Infinite) else to_binary64 (x / y))"
| "double_div (Finite x) Infinite = Finite 0"
| "double_div Infinite (Finite y) = Infinite"
| "double_div Infinite Infinite = NaN"
| "double_div NaN y = NaN"
| "double_div x NaN = NaN"

text \<open>
  The cast \<^verbatim>\<open>(cl_uint) d\<close>: the value is truncated towards zero, and the behaviour is
  undefined when the truncated value is not a \<^verbatim>\<open>cl_uint\<close>, or \<open>d\<close> is an infinity or a NaN.
\<close>

definition double_to_cl_uint :: "double \<Rightarrow> cl_uint option" where
  "double_to_cl_uint d =
     (case d of
        Finite x \<Rightarrow>
          if - 1 < x \<and> x < 2 ^ 32
          then Some (word_of_int (if x < 0 then \<lceil>x\<rceil> else \<lfloor>x\<rfloor>)) else None
      | Infinite \<Rightarrow> None
      | NaN \<Rightarrow> None)"

text \<open>The doubles that the literals \<^verbatim>\<open>1.0e-9\<close> (line 93) and \<^verbatim>\<open>0.95\<close> (line 96) stand for:
  the nearest ones, \<^verbatim>\<open>0x1.12e0be826d695p-30\<close> and \<^verbatim>\<open>0x1.e666666666666p-1\<close>.\<close>

definition double_1e_9 :: double where
  "double_1e_9 = Finite (4835703278458517 / 2 ^ 82)"

definition GPU_EFFICIENCY_ESTIMATE :: double where
  "GPU_EFFICIENCY_ESTIMATE = Finite (4278419646001971 / 2 ^ 52)"

text \<open>
  Line 93 and lines 104 to 110 on a host that computes every operation in binary64 and
  rounds it once (as SSE2 code does): the quotient \<^verbatim>\<open>estIterTime / timePerIter\<close> for the
  throughput estimate \<open>mwDeviceEstimateGFLOPs di\<close>, \<^verbatim>\<open>perIter\<close> \<open>= p\<close> and the request \<open>clr\<close>.
  \<^verbatim>\<open>(cl_double) perIter\<close> rounds a 64-bit integer to a double; the target frequency is
  a double already, which \<open>to_binary64\<close> leaves as it is. Line 112 casts the quotient.
\<close>

definition binary64_quotient ::
  "(DevInfo \<Rightarrow> double) \<Rightarrow> DevInfo \<Rightarrow> cl_ulong \<Rightarrow> CLRequest \<Rightarrow> double" where
  "binary64_quotient mwDeviceEstimateGFLOPs di p clr =
     (let gflops = mwDeviceEstimateGFLOPs di;
          effFlops = double_mult GPU_EFFICIENCY_ESTIMATE gflops;
          iterFlops = double_mult double_1e_9 (to_binary64 (real (unat p)));
          estIterTime = double_div (double_mult (Finite 1000) iterFlops) effFlops;
          timePerIter = double_div (Finite 1000) (to_binary64 (targetFrequency clr))
      in double_div estIterTime timePerIter)"

definition binary64_quotientAsUInt ::
  "(DevInfo \<Rightarrow> double) \<Rightarrow> DevInfo \<Rightarrow> cl_ulong \<Rightarrow> CLRequest \<Rightarrow> cl_uint option" where
  "binary64_quotientAsUInt mwDeviceEstimateGFLOPs di p clr =
     double_to_cl_uint (binary64_quotient mwDeviceEstimateGFLOPs di p clr)"

section \<open>Run-size planner\<close>

text \<open>Lines 192 to 217 of \<^verbatim>\<open>findRunSizes\<close>: the chunk estimate, the magic factor and the
  first chunk size.\<close>

definition magicChunkSize ::
  "cl_uint option \<Rightarrow> CLRequest \<Rightarrow> size_t \<Rightarrow> RunSizes \<Rightarrow> fault + RunSizes" where
  "magicChunkSize est clr blockSize sizes =
     (case est of
        None \<Rightarrow> Inl DoubleToUIntOutOfRange
      | Some n \<Rightarrow>
          (let sizes = sizes\<lparr>nChunkEstimate := ucast n\<rparr>
           in if sint (magicFactor clr) \<le> 0
              then (if nChunkEstimate sizes * blockSize = 0 then Inl DivideByZero
                    else (let magic = (ucast (area sizes div (nChunkEstimate sizes * blockSize)) :: cl_uint);
                              magic = (if magic = 0 then 1 else magic)
                          in Inr (sizes\<lparr>chunkSize := ucast magic * blockSize\<rparr>)))
              else Inr (sizes\<lparr>chunkSize := ucast (magicFactor clr) * blockSize\<rparr>)))"

text \<open>Lines 219 to 235: padding the area to whole chunks, counting the chunks, and the
  collapse to the block size when one chunk is left.\<close>

definition padToChunks :: "bool \<Rightarrow> size_t \<Rightarrow> RunSizes \<Rightarrow> fault + RunSizes" where
  "padToChunks forceOneChunk blockSize sizes =
     (if chunkSize sizes = 0 \<or> blockSize = 0 then Inl DivideByZero
      else
        (let sizes = sizes\<lparr>effectiveArea := chunkSize sizes * mwDivRoundup (area sizes) (chunkSize sizes)\<rparr>;
             sizes = sizes\<lparr>nChunk := (if forceOneChunk then 1
                                       else mwDivRoundup (effectiveArea sizes) (chunkSize sizes))\<rparr>;
             sizes = sizes\<lparr>extra := ucast (effectiveArea sizes - area sizes)\<rparr>;
             sizes = (if nChunk sizes = 1
                      then (let sizes = sizes\<lparr>effectiveArea := blockSize * mwDivRoundup (area sizes) blockSize\<rparr>;
                                sizes = sizes\<lparr>chunkSize := effectiveArea sizes\<rparr>
                            in sizes\<lparr>extra := ucast (effectiveArea sizes - area sizes)\<rparr>)
                      else sizes)
         in if nChunk sizes = 0 then Inl DivideByZero
            else Inr (sizes\<lparr>chunkSize := effectiveArea sizes div nChunk sizes\<rparr>)))"

text \<open>Lines 241 to 245: the loop that doubles the number of chunks while a chunk is
  larger than the device's work dimension. The doubling wraps around at \<open>2 ^ 64\<close>, and
  a chunk count of zero makes the next division undefined.\<close>

function clampLoop :: "cl_ulong \<Rightarrow> RunSizes \<Rightarrow> fault + RunSizes" where
  "clampLoop maxWorkDim sizes =
     (if maxWorkDim < chunkSize sizes
      then (if nChunk sizes * 2 = 0 then Inl DivideByZero
            else clampLoop maxWorkDim
                   (sizes\<lparr>nChunk := nChunk sizes * 2,
                          chunkSize := effectiveArea sizes div (nChunk sizes * 2)\<rparr>))
      else Inr sizes)"
  by pat_completeness auto

text \<open>Lines 238 to 256: the clamp against the device's work dimension. \<open>Planned\<close> here
  means that \<^verbatim>\<open>findRunSizes\<close> goes on with the sizes given.\<close>

definition clampChunks :: "cl_ulong \<Rightarrow> size_t \<Rightarrow> RunSizes \<Rightarrow> outcome" where
  "clampChunks maxWorkDim blockSize sizes =
     (if maxWorkDim < chunkSize sizes
      then (case clampLoop maxWorkDim sizes of
              Inl f \<Rightarrow> Undefined f
            | Inr sizes \<Rightarrow>
                if local0 sizes = 0 then Undefined DivideByZero
                else if \<not> mwDivisible (chunkSize sizes) (local0 sizes)
                then Failed TooLazyForLargeWorkunit sizes
                else if blockSize = 0 then Undefined DivideByZero
                else Planned sizes)
      else Planned sizes)"

text \<open>The locals \<^verbatim>\<open>maxWorkDim\<close> (line 132), \<^verbatim>\<open>nWavefrontPerCU\<close> (line 181) and \<^verbatim>\<open>blockSize\<close>
  (line 191) of \<^verbatim>\<open>findRunSizes\<close>; the last two are computed once the warp size is known
  not to be zero.\<close>

definition maxWorkDim :: "DevInfo \<Rightarrow> cl_ulong" where
  "maxWorkDim di = (case maxWorkItemSizes di of (w0, w1, w2) \<Rightarrow> w0 * w1 * w2)"

definition nWavefrontPerCU :: "PlanEnv \<Rightarrow> DevInfo \<Rightarrow> size_t" where
  "nWavefrontPerCU env di = wgs (snd (mwGetWorkGroupInfo env)) div ucast (warpSize di)"

definition blockSize :: "PlanEnv \<Rightarrow> DevInfo \<Rightarrow> size_t" where
  "blockSize env di = nWavefrontPerCU env di * ucast (warpSize di) * ucast (maxCompUnits di)"

text \<open>
  \<^verbatim>\<open>findRunSizes\<close>. The structure behind \<^verbatim>\<open>sizes\<close> is an argument and part of the result.
  The guard \<^verbatim>\<open>r > CL_ULONG_MAX / mu\<close> divides by \<^verbatim>\<open>mu\<close>, and \<^verbatim>\<open>mwDivisible\<close> divides by
  the warp size, with no test for zero before either.
\<close>

definition findRunSizes ::
  "PlanEnv \<Rightarrow> RunSizes \<Rightarrow> DevInfo \<Rightarrow> AstronomyParameters \<Rightarrow> IntegralArea \<Rightarrow> CLRequest \<Rightarrow> outcome" where
  "findRunSizes env sizes di ap ia clr =
     (let forceOneChunk = (nonResponsive clr \<or> nonOutput di);
          r64 = (ucast (r_steps ia) :: cl_ulong);
          mu64 = (ucast (mu_steps ia) :: cl_ulong);
          sizes = sizes\<lparr>r := r_steps ia, mu := mu_steps ia, nu := nu_steps ia, area := r64 * mu64\<rparr>
      in if mu64 = 0 then Undefined DivideByZero
         else if CL_ULONG_MAX div mu64 < r64 then Failed AreaOverflows sizes
         else if devType di = CL_DEVICE_TYPE_CPU
         then Planned (sizes\<lparr>nChunkEstimate := 1, nChunk := 1,
                              effectiveArea := area sizes, chunkSize := area sizes,
                              extra := 0, local0 := 1, global0 := area sizes\<rparr>)
         else if fst (mwGetWorkGroupInfo env) \<noteq> CL_SUCCESS then Failed WorkGroupInfoFailed sizes
         else if warpSize di = 0 then Undefined DivideByZero
         else if \<not> mwDivisible (wgs (snd (mwGetWorkGroupInfo env))) (ucast (warpSize di))
         then Failed NotMultipleOfWarpSize sizes
         else
           (let sizes = sizes\<lparr>local0 := ucast (warpSize di)\<rparr>
            in case magicChunkSize (findNChunk env ap ia di clr) clr (blockSize env di) sizes of
                 Inl f \<Rightarrow> Undefined f
               | Inr sizes \<Rightarrow>
                   (case padToChunks forceOneChunk (blockSize env di) sizes of
                      Inl f \<Rightarrow> Undefined f
                    | Inr sizes \<Rightarrow>
                        (case clampChunks (maxWorkDim di) (blockSize env di) sizes of
                           Planned sizes \<Rightarrow>
                             (let sizes = sizes\<lparr>global0 := chunkSize sizes\<rparr>
                              in if effectiveArea sizes < area sizes
                                 then Failed EffectiveAreaLessThanArea sizes
                                 else Planned sizes)
                         | other \<Rightarrow> other))))"

section \<open>Resource capability checker\<close>

text \<open>The byte sizes of the device buffers of one integral (\<^verbatim>\<open>SeparationSizes\<close>); the
  members \<^verbatim>\<open>ap\<close> and \<^verbatim>\<open>ia\<close> are written \<open>sizes_ap\<close> and \<open>sizes_ia\<close>.\<close>

record SeparationSizes =
  outBg :: size_t
  outStreams :: size_t
  sizes_ap :: size_t
  sizes_ia :: size_t
  sc :: size_t
  sg_dx :: size_t
  lTrig :: size_t
  bSin :: size_t
  rPts :: size_t
  rc :: size_t

text \<open>Every \<^verbatim>\<open>return CL_FALSE\<close> of \<^verbatim>\<open>separationCheckDevMemory\<close>, in the order of the source,
  named after the message printed before it.\<close>

datatype mem_problem =
  TotalMemoryTooLarge
  | OutputBuffersTooLarge
  | OutputBufferExceedsMaxAlloc
  | GlobalConstBufferExceedsMaxAlloc
  | TooManyConstArgs
  | ConstBufferSpaceTooSmall

text \<open>The four sums \<^verbatim>\<open>separationCheckDevMemory\<close> starts with, in \<^verbatim>\<open>size_t\<close> arithmetic.\<close>

definition totalOut :: "SeparationSizes \<Rightarrow> size_t" where
  "totalOut sizes = outBg sizes + outStreams sizes"

definition totalConstBuf :: "SeparationSizes \<Rightarrow> size_t" where
  "totalConstBuf sizes = sizes_ap sizes + sizes_ia sizes + sc sizes + sg_dx sizes"

definition totalGlobalConst :: "SeparationSizes \<Rightarrow> size_t" where
  "totalGlobalConst sizes = lTrig sizes + bSin sizes + rPts sizes + rc sizes"

definition totalMem :: "SeparationSizes \<Rightarrow> size_t" where
  "totalMem sizes = totalOut sizes + totalConstBuf sizes + totalGlobalConst sizes"

text \<open>\<^verbatim>\<open>separationCheckDevMemory\<close>: \<open>None\<close> is \<^verbatim>\<open>CL_TRUE\<close>, \<open>Some m\<close> is \<^verbatim>\<open>CL_FALSE\<close> after the
  message \<open>m\<close>.\<close>

definition separationCheckDevMemory :: "DevInfo \<Rightarrow> SeparationSizes \<Rightarrow> mem_problem option" where
  "separationCheckDevMemory di sizes =
     (if memSize di < totalMem sizes then Some TotalMemoryTooLarge
      else if memSize di < totalOut sizes then Some OutputBuffersTooLarge
      else if maxMemAlloc di < outBg sizes \<or> maxMemAlloc di < outStreams sizes
      then Some OutputBufferExceedsMaxAlloc
      else if maxMemAlloc di < lTrig sizes \<or> maxMemAlloc di < bSin sizes
              \<or> maxMemAlloc di < rPts sizes \<or> maxMemAlloc di < rc sizes
      then Some GlobalConstBufferExceedsMaxAlloc
      else if maxConstArgs di < NUM_CONST_BUF_ARGS then Some TooManyConstArgs
      else if maxConstBufSize di < totalConstBuf sizes then Some ConstBufferSpaceTooSmall
      else None)"

text \<open>
  For comparison, the check of one cut as the spec words it, on the byte counts as
  natural numbers and in the order of the spec: (b) the total of all buffers fits the
  global memory, (c) each output buffer fits the global memory, (d) each output buffer
  and each global constant buffer fits the maximum allocation, (e) the constant arguments
  are within the limit, (f) the total of the constant buffers fits the constant buffer
  size. The result is the first check that fails, named as the code names it; (d) has a
  message for the output buffers and one for the global constant buffers.
\<close>

definition totalBytes :: "SeparationSizes \<Rightarrow> nat" where
  "totalBytes sizes =
     unat (outBg sizes) + unat (outStreams sizes)
     + (unat (sizes_ap sizes) + unat (sizes_ia sizes) + unat (sc sizes) + unat (sg_dx sizes))
     + (unat (lTrig sizes) + unat (bSin sizes) + unat (rPts sizes) + unat (rc sizes))"

definition spec_checkDevMemory :: "DevInfo \<Rightarrow> SeparationSizes \<Rightarrow> mem_problem option" where
  "spec_checkDevMemory di sizes =
     (if unat (memSize di) < totalBytes sizes then Some TotalMemoryTooLarge
      else if memSize di < outBg sizes \<or> memSize di < outStreams sizes
      then Some OutputBuffersTooLarge
      else if maxMemAlloc di < outBg sizes \<or> maxMemAlloc di < outStreams sizes
      then Some OutputBufferExceedsMaxAlloc
      else if maxMemAlloc di < lTrig sizes \<or> maxMemAlloc di < bSin sizes
              \<or> maxMemAlloc di < rPts sizes \<or> maxMemAlloc di < rc sizes
      then Some GlobalConstBufferExceedsMaxAlloc
      else if maxConstArgs di < NUM_CONST_BUF_ARGS then Some TooManyConstArgs
      else if unat (maxConstBufSize di)
                < unat (sizes_ap sizes) + unat (sizes_ia sizes) + unat (sc sizes)
                  + unat (sg_dx sizes)
      then Some ConstBufferSpaceTooSmall
      else None)"

text \<open>
  What the collaborators of \<^verbatim>\<open>setupSeparationCL\<close> answer, and the build switch
  \<^verbatim>\<open>DOUBLEPREC\<close>. None of them is in the sources at hand. \<^verbatim>\<open>mwSetProgramFromSrc\<close> is
  called up to twice; its answer may differ between the calls, so it is indexed by the
  number of earlier calls. A pointer result is \<open>True\<close> when it is not \<^verbatim>\<open>NULL\<close>.
\<close>

record SetupEnv =
  DOUBLEPREC :: bool
  mwSetupCL :: "cl_int \<times> DevInfo"
  mwSupportsDoubles :: "DevInfo \<Rightarrow> bool"
  calculateSizes :: "AstronomyParameters \<Rightarrow> IntegralArea \<Rightarrow> SeparationSizes"
  mwIsAMDGPUDevice :: "DevInfo \<Rightarrow> bool"
  mwPlatformSupportsAMDOfflineDevices :: bool
  getCompilerFlags :: "bool \<Rightarrow> bool"
  mwSetProgramFromSrc :: "nat \<Rightarrow> cl_int"
  mwGetProgramBinary :: bool
  clReleaseProgram :: cl_int
  getModifiedAMDBinary :: bool
  mwSetProgramFromBin :: cl_int
  mwCreateKernel :: cl_int

text \<open>Why \<^verbatim>\<open>separationCheckDevCapabilities\<close> returns \<^verbatim>\<open>CL_FALSE\<close>: no double precision, or
  the first cut (by index) whose memory check fails.\<close>

datatype cap_problem = NoDoublePrecision | CutFailed nat mem_problem

text \<open>The loop over the cuts, from cut \<open>i\<close> on, with \<open>n\<close> cuts left. \<^verbatim>\<open>ias\<close> is a C array,
  read at the indices below \<^verbatim>\<open>number_integrals\<close>.\<close>

primrec checkCuts ::
  "SetupEnv \<Rightarrow> DevInfo \<Rightarrow> AstronomyParameters \<Rightarrow> (nat \<Rightarrow> IntegralArea) \<Rightarrow> nat \<Rightarrow> nat
     \<Rightarrow> cap_problem option" where
  "checkCuts env di ap ias i 0 = None"
| "checkCuts env di ap ias i (Suc n) =
     (case separationCheckDevMemory di (calculateSizes env ap (ias i)) of
        Some m \<Rightarrow> Some (CutFailed i m)
      | None \<Rightarrow> checkCuts env di ap ias (Suc i) n)"

definition separationCheckDevCapabilities ::
  "SetupEnv \<Rightarrow> DevInfo \<Rightarrow> AstronomyParameters \<Rightarrow> (nat \<Rightarrow> IntegralArea) \<Rightarrow> cap_problem option" where
  "separationCheckDevCapabilities env di ap ias =
     (if DOUBLEPREC env \<and> \<not> mwSupportsDoubles env di then Some NoDoublePrecision
      else checkCuts env di ap ias 0 (unat (number_integrals ap)))"

section \<open>Kernel variant selector\<close>

text \<open>
  The program object behind \<^verbatim>\<open>ci->prog\<close>, the kernel behind \<^verbatim>\<open>_separationKernel\<close> (with the
  program it was created from), and the calls made to the OpenCL build collaborators, in
  order. A failed build is taken to leave no program behind.
\<close>

datatype program = NoProgram | SourceProgram | BinaryProgram

datatype build_call =
  BuildFromSource
  | GetProgramBinary
  | ReleaseProgram
  | ModifyBinary
  | BuildFromBinary
  | CreateKernel

record CLInfo =
  ci_di :: DevInfo
  prog :: program
  separationKernel :: "program option"
  calls :: "build_call list"

definition isILKernelTarget :: "DevInfo \<Rightarrow> bool" where
  "isILKernelTarget di =
     (let t = calTarget di
      in t = MW_CAL_TARGET_770 \<or> t = MW_CAL_TARGET_CYPRESS \<or> t = MW_CAL_TARGET_CAYMAN)"

definition usingILKernelIsAcceptable ::
  "SetupEnv \<Rightarrow> CLInfo \<Rightarrow> AstronomyParameters \<Rightarrow> CLRequest \<Rightarrow> bool" where
  "usingILKernelIsAcceptable env ci ap clr =
     (let di = ci_di ci
      in if \<not> DOUBLEPREC env then False
         else if forceNoILKernel clr then False
         else if maxILKernelStreams < number_streams ap \<or> aux_bg_profile ap then False
         else mwIsAMDGPUDevice env di \<and> isILKernelTarget di
              \<and> mwPlatformSupportsAMDOfflineDevices env)"

definition buildFromSource :: "SetupEnv \<Rightarrow> nat \<Rightarrow> CLInfo \<Rightarrow> cl_int \<times> CLInfo" where
  "buildFromSource env k ci =
     (let err = mwSetProgramFromSrc env k
      in (err, ci\<lparr>prog := (if err = CL_SUCCESS then SourceProgram else NoProgram),
                   calls := calls ci @ [BuildFromSource]\<rparr>))"

definition setProgramFromILKernel :: "SetupEnv \<Rightarrow> CLInfo \<Rightarrow> cl_int \<times> CLInfo" where
  "setProgramFromILKernel env ci =
     (let ci = ci\<lparr>calls := calls ci @ [GetProgramBinary]\<rparr>
      in if \<not> mwGetProgramBinary env then (MW_CL_ERROR, ci)
         else
           (let ci = ci\<lparr>calls := calls ci @ [ReleaseProgram]\<rparr>
            in if clReleaseProgram env \<noteq> CL_SUCCESS then (clReleaseProgram env, ci)
               else
                 (let ci = ci\<lparr>prog := NoProgram, calls := calls ci @ [ModifyBinary]\<rparr>
                  in if \<not> getModifiedAMDBinary env then (MW_CL_ERROR, ci)
                     else
                       (let ci = ci\<lparr>calls := calls ci @ [BuildFromBinary]\<rparr>
                        in if mwSetProgramFromBin env \<noteq> CL_SUCCESS
                           then (mwSetProgramFromBin env, ci)
                           else (CL_SUCCESS, ci\<lparr>prog := BinaryProgram\<rparr>)))))"

definition createKernel :: "SetupEnv \<Rightarrow> CLInfo \<Rightarrow> cl_int \<times> CLInfo" where
  "createKernel env ci =
     (let err = mwCreateKernel env
      in (err, ci\<lparr>separationKernel := (if err = CL_SUCCESS then Some (prog ci) else separationKernel ci),
                   calls := calls ci @ [CreateKernel]\<rparr>))"

definition setupSeparationCL ::
  "SetupEnv \<Rightarrow> CLInfo \<Rightarrow> AstronomyParameters \<Rightarrow> (nat \<Rightarrow> IntegralArea) \<Rightarrow> CLRequest
     \<Rightarrow> cl_int \<times> CLInfo" where
  "setupSeparationCL env ci ap ias clr =
     (let err = fst (mwSetupCL env);
          ci = ci\<lparr>ci_di := snd (mwSetupCL env)\<rparr>
      in if err \<noteq> CL_SUCCESS then (err, ci)
         else if separationCheckDevCapabilities env (ci_di ci) ap ias \<noteq> None
         then (MW_CL_ERROR, ci)
         else
           (let useILKernel = usingILKernelIsAcceptable env ci ap clr
            in if \<not> getCompilerFlags env useILKernel then (MW_CL_ERROR, ci)
               else
                 (case buildFromSource env 0 ci of (err, ci) \<Rightarrow>
                    if err \<noteq> CL_SUCCESS then (err, ci)
                    else
                      (case (if useILKernel
                             then (case setProgramFromILKernel env ci of (err, ci) \<Rightarrow>
                                     if err \<noteq> CL_SUCCESS then buildFromSource env 1 ci
                                     else (err, ci))
                             else (err, ci)) of (err, ci) \<Rightarrow>
                         if err = CL_SUCCESS then createKernel env ci else (err, ci)))))"

section \<open>Example inputs\<close>

text \<open>
  A discrete GPU in the style of the ones the planner is written for: wavefronts of 64
  work items, 20 compute units, work-item sizes of 256 in each dimension; the kernel
  reports a work group size of 256. The workunit has 4 streams and 120 convolution
  points, that is 36489 operations for each of the \<open>mu_steps * r_steps\<close> items; the request
  asks for 60 Hz and sets no magic factor. \<open>blank_sizes\<close> is a \<^verbatim>\<open>RunSizes\<close> that was zeroed
  by the caller.

  The host of \<open>plan_env\<close> computes in binary64 and estimates every device at 544 GFLOPS.
\<close>

definition gpu_device :: DevInfo where
  "gpu_device =
     \<lparr>devType = 4, nonOutput = False, warpSize = 64, maxCompUnits = 20,
      maxWorkItemSizes = (256, 256, 256), memSize = 1073741824, maxMemAlloc = 268435456,
      maxConstArgs = 8, maxConstBufSize = 65536, calTarget = MW_CAL_TARGET_CYPRESS\<rparr>"

definition plan_env :: PlanEnv where
  "plan_env =
     \<lparr>mwGetWorkGroupInfo = (0, \<lparr>wgs = 256\<rparr>),
      quotientAsUInt = binary64_quotientAsUInt (\<lambda>di. Finite 544)\<rparr>"

definition blank_sizes :: RunSizes where
  "blank_sizes =
     \<lparr>r = 0, mu = 0, nu = 0, area = 0, nChunkEstimate = 0, nChunk = 0, chunkSize = 0,
      extra = 0, effectiveArea = 0, local0 = 0, global0 = 0\<rparr>"

definition wu_params :: AstronomyParameters where
  "wu_params =
     \<lparr>number_streams = 4, convolve = 120, aux_bg_profile = False, number_integrals = 1\<rparr>"

definition plain_request :: CLRequest where
  "plain_request =
     \<lparr>targetFrequency = 60, magicFactor = 0, nonResponsive = False,
      forceNoILKernel = False, verbose = False\<rparr>"

text \<open>
  The buffer sizes of a cut of 10000 by 500 steps with 4 streams, and collaborators of
  \<^verbatim>\<open>setupSeparationCL\<close> for the device above: a double-precision build on an AMD GPU
  whose platform takes offline binaries, where every call succeeds except the patching
  of the binary.
\<close>

definition cut_sizes :: SeparationSizes where
  "cut_sizes =
     \<lparr>outBg = 40000000, outStreams = 160000000, sizes_ap = 256, sizes_ia = 64, sc = 512,
      sg_dx = 960, lTrig = 160000, bSin = 80000, rPts = 960000, rc = 8000\<rparr>"

definition setup_env :: SetupEnv where
  "setup_env =
     \<lparr>DOUBLEPREC = True, mwSetupCL = (0, gpu_device), mwSupportsDoubles = (\<lambda>d. True),
      calculateSizes = (\<lambda>p a. cut_sizes), mwIsAMDGPUDevice = (\<lambda>d. True),
      mwPlatformSupportsAMDOfflineDevices = True, getCompilerFlags = (\<lambda>il. True),
      mwSetProgramFromSrc = (\<lambda>k. 0), mwGetProgramBinary = True, clReleaseProgram = 0,
      getModifiedAMDBinary = False, mwSetProgramFromBin = 0, mwCreateKernel = 0\<rparr>"

definition fresh_ci :: CLInfo where
  "fresh_ci = \<lparr>ci_di = gpu_device, prog = NoProgram, separationKernel = None, calls = []\<rparr>"

section \<open>Termination of the clamp loop\<close>

lemma two_power_64_word: "(2 :: 64 word) ^ 64 = 0"
  by simp

lemma doubling_measure:
  assumes "(n :: 64 word) * 2 \<noteq> 0"
  shows "(LEAST k. n * 2 * 2 ^ k = 0) < (LEAST k. n * 2 ^ k = 0)"
proof -
  let ?d = "LEAST k. n * 2 ^ k = 0"
  have ex: "n * 2 ^ 64 = 0" by (simp only: two_power_64_word mult_zero_right)
  have d0: "n * 2 ^ ?d = 0" by (rule LeastI [of "\<lambda>k. n * 2 ^ k = 0", OF ex])
  have "?d \<noteq> 0" using d0 assms by (cases "?d = 0") auto
  then obtain j where j: "?d = Suc j" by (cases ?d) auto
  have "n * 2 * 2 ^ j = 0" using d0 j by (simp add: mult.assoc)
  then have "(LEAST k. n * 2 * 2 ^ k = 0) \<le> j" by (rule Least_le)
  then show ?thesis using j by simp
qed

termination clampLoop
  by (relation "measure (\<lambda>(m, s). LEAST k. nChunk s * 2 ^ k = 0)") (auto intro: doubling_measure)

declare clampLoop.simps [simp del]

declare bitlen.simps [simp del]

section \<open>Facts about the machine integers\<close>

lemmas plan_defs =
  findRunSizes_def CL_ULONG_MAX_def CL_DEVICE_TYPE_CPU_def CL_SUCCESS_def mwDivisible_def
  mwDivRoundup_def findNChunk_def perIter_def magicChunkSize_def padToChunks_def
  clampChunks_def maxWorkDim_def nWavefrontPerCU_def blockSize_def Let_def

lemmas binary64_defs =
  binary64_quotientAsUInt_def binary64_quotient_def double_to_cl_uint_def
  GPU_EFFICIENCY_ESTIMATE_def double_1e_9_def to_binary64_def round_half_even_def ilog2_def
  pow2_def bitlen.simps

lemmas example_defs =
  gpu_device_def plan_env_def blank_sizes_def wu_params_def plain_request_def binary64_defs

lemma unat_ucast_32_64: "unat (ucast (x :: 32 word) :: 64 word) = unat x"
  by (simp add: unsigned_ucast_eq take_bit_nat_eq_self_iff order_less_trans [OF unsigned_less])

lemma unat_32_bound: "unat (x :: 32 word) < 4294967296"
  using unsigned_less [of x, where 'a = nat] by simp

lemma ucast_32_64_eq_0: "(ucast (x :: 32 word) :: 64 word) = 0 \<longleftrightarrow> x = 0"
  by (metis unat_ucast_32_64 unat_eq_zero)

text \<open>The step counts are 32 bits wide, so their 64-bit product cannot overflow and the
  guard \<^verbatim>\<open>r > CL_ULONG_MAX / mu\<close> is never true.\<close>

lemma overflow_guard_never_fires:
  fixes x y :: "32 word"
  assumes "y \<noteq> 0"
  shows "\<not> CL_ULONG_MAX div (ucast y :: 64 word) < ucast x"
proof -
  have y: "0 < unat y" using assms by (simp add: unat_gt_0)
  have yb: "unat y < 4294967296" by (rule unat_32_bound)
  have xb: "unat x < 4294967296" by (rule unat_32_bound)
  have "4294967296 * unat y \<le> 4294967296 * 4294967295" using yb by simp
  then have "4294967296 * unat y \<le> 18446744073709551615" by simp
  then have "4294967296 \<le> 18446744073709551615 div unat y"
    using y by (simp add: less_eq_div_iff_mult_less_eq)
  then have "unat x \<le> 18446744073709551615 div unat y" using xb by linarith
  then show ?thesis
    by (simp add: word_less_nat_alt unat_div unat_ucast_32_64 CL_ULONG_MAX_def not_less)
qed

section \<open>The host-CPU path\<close>

text \<open>With at least one \<^verbatim>\<open>mu\<close> step a CPU device gets one chunk of the whole area, local
  size 1 and no padding, whatever the request says.\<close>

lemma findRunSizes_cpu:
  assumes "devType di = CL_DEVICE_TYPE_CPU" and "mu_steps ia \<noteq> 0"
  shows "findRunSizes env sizes di ap ia clr =
    Planned (sizes\<lparr>r := r_steps ia, mu := mu_steps ia, nu := nu_steps ia,
               area := ucast (r_steps ia) * ucast (mu_steps ia),
               nChunkEstimate := 1, nChunk := 1,
               effectiveArea := ucast (r_steps ia) * ucast (mu_steps ia),
               chunkSize := ucast (r_steps ia) * ucast (mu_steps ia),
               extra := 0, local0 := 1,
               global0 := ucast (r_steps ia) * ucast (mu_steps ia)\<rparr>)"
  using assms overflow_guard_never_fires [of "mu_steps ia" "r_steps ia"]
  by (simp add: findRunSizes_def Let_def ucast_32_64_eq_0)

text \<open>
  C6. On a CPU device the planner is to return one chunk of the whole area for every
  area. For the area of 700 by 0 steps (whose product, 0, does not overflow) it does
  not return: the overflow guard divides \<^verbatim>\<open>CL_ULONG_MAX\<close> by \<^verbatim>\<open>mu_steps = 0\<close> before the
  device type is looked at.
\<close>

theorem findRunSizes_cpu_zero_mu_steps:
  "findRunSizes plan_env blank_sizes (gpu_device\<lparr>devType := CL_DEVICE_TYPE_CPU\<rparr>) wu_params
     \<lparr>r_steps = 700, mu_steps = 0, nu_steps = 3\<rparr> plain_request
   = Undefined DivideByZero"
  by (simp add: findRunSizes_def Let_def)

section \<open>Totality of the planner\<close>

text \<open>
  C9. The planner divides by zero whenever \<^verbatim>\<open>mu_steps\<close> is zero, on every device and for
  every request: it can only return for an area with \<^verbatim>\<open>mu_steps >= 1\<close>. The guard
  \<^verbatim>\<open>r > CL_ULONG_MAX / mu\<close> is reached before any test of \<^verbatim>\<open>mu\<close>.
\<close>

theorem findRunSizes_divides_by_mu_steps:
  "mu_steps ia = 0 \<Longrightarrow> findRunSizes env sizes di ap ia clr = Undefined DivideByZero"
  by (simp add: findRunSizes_def Let_def)

theorem findRunSizes_divides_by_mu_steps_witness:
  "mu_steps \<lparr>r_steps = 700, mu_steps = 0, nu_steps = 3\<rparr> = 0
   \<and> findRunSizes plan_env blank_sizes gpu_device wu_params
        \<lparr>r_steps = 700, mu_steps = 0, nu_steps = 3\<rparr> plain_request
      = Undefined DivideByZero"
  using findRunSizes_divides_by_mu_steps
    [of "\<lparr>r_steps = 700, mu_steps = 0, nu_steps = 3\<rparr>" plan_env blank_sizes gpu_device
        wu_params plain_request]
  by simp

section \<open>The capability check\<close>

lemmas mem_defs = separationCheckDevMemory_def totalOut_def totalConstBuf_def totalGlobalConst_def
  totalMem_def NUM_CONST_BUF_ARGS_def

lemma checkCuts_None:
  "checkCuts env di ap ias i n = None \<longleftrightarrow>
     (\<forall>j. i \<le> j \<and> j < i + n \<longrightarrow> separationCheckDevMemory di (calculateSizes env ap (ias j)) = None)"
proof (induction n arbitrary: i)
  case 0
  then show ?case by auto
next
  case (Suc n)
  show ?case
  proof (cases "separationCheckDevMemory di (calculateSizes env ap (ias i))")
    case None
    have "(\<forall>j. i \<le> j \<and> j < i + Suc n \<longrightarrow> separationCheckDevMemory di (calculateSizes env ap (ias j)) = None)
      \<longleftrightarrow> (\<forall>j. Suc i \<le> j \<and> j < Suc i + n \<longrightarrow> separationCheckDevMemory di (calculateSizes env ap (ias j)) = None)"
      using None by (metis Suc_leI add_Suc_right add_Suc le_eq_less_or_eq Suc_leD)
    then show ?thesis using None Suc.IH [of "Suc i"] by simp
  next
    case (Some m)
    then show ?thesis by auto 
  qed
qed

lemma checkCuts_first:
  "checkCuts env di ap ias i n = Some (CutFailed j m) \<longleftrightarrow>
     i \<le> j \<and> j < i + n \<and> separationCheckDevMemory di (calculateSizes env ap (ias j)) = Some m
     \<and> (\<forall>k. i \<le> k \<and> k < j \<longrightarrow> separationCheckDevMemory di (calculateSizes env ap (ias k)) = None)"
proof (induction n arbitrary: i)
  case 0
  then show ?case by simp
next
  case (Suc n)
  show ?case
  proof (cases "separationCheckDevMemory di (calculateSizes env ap (ias i))")
    case None
    have a: "checkCuts env di ap ias i (Suc n) = checkCuts env di ap ias (Suc i) n"
      using None by simp
    show ?thesis unfolding a Suc.IH [of "Suc i"]
      using None
      by (metis Suc_leI add_Suc_right add_Suc le_eq_less_or_eq Suc_leD option.distinct(1) not_less_eq_eq)
  next
    case (Some m')
    then show ?thesis by (auto simp: le_less)
  qed
qed


text \<open>As long as the byte counts of a cut add up to less than \<open>2 ^ 64\<close>, no sum of the
  check wraps around and the check is the one the spec words.\<close>

lemma unat_sum2:
  fixes x y :: "64 word"
  shows "unat x + unat y < 2 ^ 64 \<Longrightarrow> unat (x + y) = unat x + unat y"
  using unat_add_lem [of x y] by simp

lemma unat_totals:
  assumes "totalBytes sizes < 2 ^ 64"
  shows "unat (totalOut sizes) = unat (outBg sizes) + unat (outStreams sizes)"
    and "unat (totalConstBuf sizes)
         = unat (sizes_ap sizes) + unat (sizes_ia sizes) + unat (sc sizes) + unat (sg_dx sizes)"
    and "unat (totalMem sizes) = totalBytes sizes"
proof -
  have b: "unat (outBg sizes) + unat (outStreams sizes)
     + (unat (sizes_ap sizes) + unat (sizes_ia sizes) + unat (sc sizes) + unat (sg_dx sizes))
     + (unat (lTrig sizes) + unat (bSin sizes) + unat (rPts sizes) + unat (rc sizes)) < 2 ^ 64"
    using assms by (simp add: totalBytes_def)
  show o: "unat (totalOut sizes) = unat (outBg sizes) + unat (outStreams sizes)"
    unfolding totalOut_def by (rule unat_sum2) (use b in linarith)
  have c1: "unat (sizes_ap sizes + sizes_ia sizes) = unat (sizes_ap sizes) + unat (sizes_ia sizes)"
    by (rule unat_sum2) (use b in linarith)
  have c2: "unat (sizes_ap sizes + sizes_ia sizes + sc sizes)
      = unat (sizes_ap sizes) + unat (sizes_ia sizes) + unat (sc sizes)"
    using unat_sum2 [of "sizes_ap sizes + sizes_ia sizes" "sc sizes"] c1 b by linarith
  show c: "unat (totalConstBuf sizes)
         = unat (sizes_ap sizes) + unat (sizes_ia sizes) + unat (sc sizes) + unat (sg_dx sizes)"
    unfolding totalConstBuf_def
    using unat_sum2 [of "sizes_ap sizes + sizes_ia sizes + sc sizes" "sg_dx sizes"] c2 b
    by linarith
  have g1: "unat (lTrig sizes + bSin sizes) = unat (lTrig sizes) + unat (bSin sizes)"
    by (rule unat_sum2) (use b in linarith)
  have g2: "unat (lTrig sizes + bSin sizes + rPts sizes)
      = unat (lTrig sizes) + unat (bSin sizes) + unat (rPts sizes)"
    using unat_sum2 [of "lTrig sizes + bSin sizes" "rPts sizes"] g1 b by linarith
  have g: "unat (totalGlobalConst sizes)
      = unat (lTrig sizes) + unat (bSin sizes) + unat (rPts sizes) + unat (rc sizes)"
    unfolding totalGlobalConst_def
    using unat_sum2 [of "lTrig sizes + bSin sizes + rPts sizes" "rc sizes"] g2 b by linarith
  have m1: "unat (totalOut sizes + totalConstBuf sizes)
      = unat (totalOut sizes) + unat (totalConstBuf sizes)"
    by (rule unat_sum2) (use b o c in linarith)
  show "unat (totalMem sizes) = totalBytes sizes"
    unfolding totalMem_def totalBytes_def
    using unat_sum2 [of "totalOut sizes + totalConstBuf sizes" "totalGlobalConst sizes"]
      m1 o c g b by linarith
qed

lemma checkDevMemory_refines_spec:
  assumes "totalBytes sizes < 2 ^ 64"
  shows "separationCheckDevMemory di sizes = spec_checkDevMemory di sizes"
proof -
  note u = unat_totals [OF assms]
  have t: "memSize di < totalMem sizes \<longleftrightarrow> unat (memSize di) < totalBytes sizes"
    by (simp add: word_less_nat_alt u)
  have f: "maxConstBufSize di < totalConstBuf sizes \<longleftrightarrow>
      unat (maxConstBufSize di)
        < unat (sizes_ap sizes) + unat (sizes_ia sizes) + unat (sc sizes) + unat (sg_dx sizes)"
    by (simp add: word_less_nat_alt u)
  show ?thesis
  proof (cases "unat (memSize di) < totalBytes sizes")
    case True
    then show ?thesis using t by (simp add: separationCheckDevMemory_def spec_checkDevMemory_def)
  next
    case False
    then have le: "unat (outBg sizes) + unat (outStreams sizes) \<le> unat (memSize di)"
      by (simp add: totalBytes_def)
    have o: "\<not> memSize di < totalOut sizes" using le by (simp add: word_less_nat_alt u(1))
    have o1: "\<not> memSize di < outBg sizes" and o2: "\<not> memSize di < outStreams sizes"
      using le by (simp_all add: word_less_nat_alt)
    have "separationCheckDevMemory di sizes =
      (if maxMemAlloc di < outBg sizes \<or> maxMemAlloc di < outStreams sizes
       then Some OutputBufferExceedsMaxAlloc
       else if maxMemAlloc di < lTrig sizes \<or> maxMemAlloc di < bSin sizes
               \<or> maxMemAlloc di < rPts sizes \<or> maxMemAlloc di < rc sizes
       then Some GlobalConstBufferExceedsMaxAlloc
       else if maxConstArgs di < NUM_CONST_BUF_ARGS then Some TooManyConstArgs
       else if maxConstBufSize di < totalConstBuf sizes then Some ConstBufferSpaceTooSmall
       else None)"
      using False t o unfolding separationCheckDevMemory_def by (simp only: if_False)
    also have "\<dots> = spec_checkDevMemory di sizes"
      using False o1 o2 unfolding spec_checkDevMemory_def f by (simp only: if_False simp_thms)
    finally show ?thesis .
  qed
qed

lemma checkCuts_never_NoDoublePrecision:
  "checkCuts env di ap ias i n \<noteq> Some NoDoublePrecision"
  by (induction n arbitrary: i) (auto split: option.splits)

lemmas setup_defs = setupSeparationCL_def buildFromSource_def setProgramFromILKernel_def
  createKernel_def Let_def

text \<open>
  C7. The byte counts of the ten buffers of a cut are sizes of buffers that are to exist
  side by side in the memory of one device, so they add up to less than \<open>2 ^ 64\<close>, and
  then no \<^verbatim>\<open>size_t\<close> sum of \<^verbatim>\<open>separationCheckDevMemory\<close> wraps around. For such cuts the
  check is the one the spec words, with the same first failure: (b) the total of all
  buffers fits the global memory, (c) each output buffer fits the global memory (the
  code tests the sum of the two, which (b) has already bounded), (d) each output buffer
  and each global constant buffer fits the maximum allocation, (e) the five constant
  arguments are within the device's limit, (f) the total of the constant buffers is
  within the constant buffer size. \<^verbatim>\<open>separationCheckDevCapabilities\<close> tests (a), double
  precision support in a double precision build, before the cuts (it is the same test for
  each of them), then the cuts in order, and fails at the first cut that fails. When it
  fails, \<^verbatim>\<open>setupSeparationCL\<close> returns \<^verbatim>\<open>MW_CL_ERROR\<close> without a single call to the build
  collaborators and leaves program and kernel as they were.
\<close>

theorem capability_check:
  assumes "\<forall>k < unat (number_integrals ap).
             totalBytes (calculateSizes env ap (ias k)) < 2 ^ 64"
  shows "(\<forall>k < unat (number_integrals ap).
            separationCheckDevMemory di (calculateSizes env ap (ias k))
            = spec_checkDevMemory di (calculateSizes env ap (ias k)))
   \<and> (separationCheckDevCapabilities env di ap ias = Some NoDoublePrecision \<longleftrightarrow>
        DOUBLEPREC env \<and> \<not> mwSupportsDoubles env di)
   \<and> (separationCheckDevCapabilities env di ap ias = Some (CutFailed j m) \<longleftrightarrow>
        (DOUBLEPREC env \<longrightarrow> mwSupportsDoubles env di)
        \<and> j < unat (number_integrals ap)
        \<and> spec_checkDevMemory di (calculateSizes env ap (ias j)) = Some m
        \<and> (\<forall>k < j. spec_checkDevMemory di (calculateSizes env ap (ias k)) = None))
   \<and> (separationCheckDevCapabilities env di ap ias = None \<longleftrightarrow>
        (DOUBLEPREC env \<longrightarrow> mwSupportsDoubles env di)
        \<and> (\<forall>k < unat (number_integrals ap).
              spec_checkDevMemory di (calculateSizes env ap (ias k)) = None))
   \<and> (fst (mwSetupCL env) = CL_SUCCESS
        \<and> separationCheckDevCapabilities env (snd (mwSetupCL env)) ap ias \<noteq> None
        \<longrightarrow> fst (setupSeparationCL env ci ap ias clr) = MW_CL_ERROR
            \<and> calls (snd (setupSeparationCL env ci ap ias clr)) = calls ci
            \<and> prog (snd (setupSeparationCL env ci ap ias clr)) = prog ci
            \<and> separationKernel (snd (setupSeparationCL env ci ap ias clr)) = separationKernel ci)"
proof (intro conjI)
  define n where "n = unat (number_integrals ap)"
  define chk where "chk k = separationCheckDevMemory di (calculateSizes env ap (ias k))" for k
  define spc where "spc k = spec_checkDevMemory di (calculateSizes env ap (ias k))" for k
  have eq: "chk k = spc k" if "k < n" for k
    unfolding chk_def spc_def
    by (rule checkDevMemory_refines_spec) (use assms that in \<open>simp add: n_def\<close>)
  show "\<forall>k < unat (number_integrals ap).
            separationCheckDevMemory di (calculateSizes env ap (ias k))
            = spec_checkDevMemory di (calculateSizes env ap (ias k))"
    using eq by (simp add: n_def chk_def spc_def)
  have first: "separationCheckDevCapabilities env di ap ias = Some (CutFailed j m) \<longleftrightarrow>
        (DOUBLEPREC env \<longrightarrow> mwSupportsDoubles env di)
        \<and> j < n \<and> chk j = Some m \<and> (\<forall>k < j. chk k = None)"
    by (auto simp: separationCheckDevCapabilities_def checkCuts_first n_def chk_def)
  have "(j < n \<and> chk j = Some m \<and> (\<forall>k < j. chk k = None))
        \<longleftrightarrow> (j < n \<and> spc j = Some m \<and> (\<forall>k < j. spc k = None))"
    using eq by (metis less_trans)
  then have "separationCheckDevCapabilities env di ap ias = Some (CutFailed j m) \<longleftrightarrow>
        (DOUBLEPREC env \<longrightarrow> mwSupportsDoubles env di)
        \<and> j < n \<and> spc j = Some m \<and> (\<forall>k < j. spc k = None)"
    using first by blast
  then show "separationCheckDevCapabilities env di ap ias = Some (CutFailed j m) \<longleftrightarrow>
        (DOUBLEPREC env \<longrightarrow> mwSupportsDoubles env di)
        \<and> j < unat (number_integrals ap)
        \<and> spec_checkDevMemory di (calculateSizes env ap (ias j)) = Some m
        \<and> (\<forall>k < j. spec_checkDevMemory di (calculateSizes env ap (ias k)) = None)"
    by (simp only: n_def spc_def)
  have none: "separationCheckDevCapabilities env di ap ias = None \<longleftrightarrow>
        (DOUBLEPREC env \<longrightarrow> mwSupportsDoubles env di) \<and> (\<forall>k < n. chk k = None)"
    by (auto simp: separationCheckDevCapabilities_def checkCuts_None n_def chk_def)
  have "(\<forall>k < n. chk k = None) \<longleftrightarrow> (\<forall>k < n. spc k = None)" using eq by simp
  then have "separationCheckDevCapabilities env di ap ias = None \<longleftrightarrow>
        (DOUBLEPREC env \<longrightarrow> mwSupportsDoubles env di) \<and> (\<forall>k < n. spc k = None)"
    using none by blast
  then show "separationCheckDevCapabilities env di ap ias = None \<longleftrightarrow>
        (DOUBLEPREC env \<longrightarrow> mwSupportsDoubles env di)
        \<and> (\<forall>k < unat (number_integrals ap).
              spec_checkDevMemory di (calculateSizes env ap (ias k)) = None)"
    by (simp only: n_def spc_def)
  show "separationCheckDevCapabilities env di ap ias = Some NoDoublePrecision \<longleftrightarrow>
        DOUBLEPREC env \<and> \<not> mwSupportsDoubles env di"
    using checkCuts_never_NoDoublePrecision [of env di ap ias 0 "unat (number_integrals ap)"]
    by (auto simp: separationCheckDevCapabilities_def)
  show "fst (mwSetupCL env) = CL_SUCCESS
        \<and> separationCheckDevCapabilities env (snd (mwSetupCL env)) ap ias \<noteq> None
        \<longrightarrow> fst (setupSeparationCL env ci ap ias clr) = MW_CL_ERROR
            \<and> calls (snd (setupSeparationCL env ci ap ias clr)) = calls ci
            \<and> prog (snd (setupSeparationCL env ci ap ias clr)) = prog ci
            \<and> separationKernel (snd (setupSeparationCL env ci ap ias clr)) = separationKernel ci"
    by (auto simp: setupSeparationCL_def Let_def)
qed

lemmas setup_example_defs = setup_env_def fresh_ci_def gpu_device_def cut_sizes_def wu_params_def
  plain_request_def

text \<open>The example device passes the example cut, whose buffers take 201209792 bytes.
  With allocations of at most 100000000 bytes it fails check (d) for the stream output
  buffer, and the setup stops before any build.\<close>

theorem capability_check_witness:
  "unat (number_integrals wu_params) = 1
   \<and> totalBytes (calculateSizes setup_env wu_params
                   \<lparr>r_steps = 500, mu_steps = 10000, nu_steps = 3\<rparr>) = 201209792
   \<and> (201209792 :: nat) < 2 ^ 64
   \<and> spec_checkDevMemory (gpu_device\<lparr>maxMemAlloc := 100000000\<rparr>) cut_sizes
      = Some OutputBufferExceedsMaxAlloc
   \<and> separationCheckDevMemory (gpu_device\<lparr>maxMemAlloc := 100000000\<rparr>) cut_sizes
      = Some OutputBufferExceedsMaxAlloc
   \<and> spec_checkDevMemory gpu_device cut_sizes = None
   \<and> separationCheckDevMemory gpu_device cut_sizes = None
   \<and> DOUBLEPREC setup_env
   \<and> mwSupportsDoubles setup_env (gpu_device\<lparr>maxMemAlloc := 100000000\<rparr>)
   \<and> separationCheckDevCapabilities setup_env (gpu_device\<lparr>maxMemAlloc := 100000000\<rparr>) wu_params
        (\<lambda>i. \<lparr>r_steps = 500, mu_steps = 10000, nu_steps = 3\<rparr>)
      = Some (CutFailed 0 OutputBufferExceedsMaxAlloc)
   \<and> separationCheckDevCapabilities setup_env gpu_device wu_params
        (\<lambda>i. \<lparr>r_steps = 500, mu_steps = 10000, nu_steps = 3\<rparr>) = None
   \<and> fst (mwSetupCL (setup_env\<lparr>mwSetupCL := (0, gpu_device\<lparr>maxMemAlloc := 100000000\<rparr>)\<rparr>))
      = CL_SUCCESS
   \<and> fst (setupSeparationCL
             (setup_env\<lparr>mwSetupCL := (0, gpu_device\<lparr>maxMemAlloc := 100000000\<rparr>)\<rparr>) fresh_ci
             wu_params (\<lambda>i. \<lparr>r_steps = 500, mu_steps = 10000, nu_steps = 3\<rparr>) plain_request)
      = MW_CL_ERROR
   \<and> calls (snd (setupSeparationCL
             (setup_env\<lparr>mwSetupCL := (0, gpu_device\<lparr>maxMemAlloc := 100000000\<rparr>)\<rparr>) fresh_ci
             wu_params (\<lambda>i. \<lparr>r_steps = 500, mu_steps = 10000, nu_steps = 3\<rparr>) plain_request))
      = []"
  using capability_check
    [of wu_params "setup_env\<lparr>mwSetupCL := (0, gpu_device\<lparr>maxMemAlloc := 100000000\<rparr>)\<rparr>"
        "\<lambda>i. \<lparr>r_steps = 500, mu_steps = 10000, nu_steps = 3\<rparr>"
        "gpu_device\<lparr>maxMemAlloc := 100000000\<rparr>" 0 OutputBufferExceedsMaxAlloc
        fresh_ci plain_request]
    capability_check
    [of wu_params setup_env
        "\<lambda>i. \<lparr>r_steps = 500, mu_steps = 10000, nu_steps = 3\<rparr>"
        gpu_device 0 OutputBufferExceedsMaxAlloc
        fresh_ci plain_request]
  by (simp add: mem_defs setup_example_defs CL_SUCCESS_def separationCheckDevCapabilities_def
      totalBytes_def spec_checkDevMemory_def)

section \<open>Kernel variant selection\<close>

text \<open>
  C8, as the code has it. The IL kernel is acceptable exactly when the build is double
  precision, the request does not switch it off, there are at most 4 streams and no
  auxiliary background profile, and the device is an AMD GPU with target 770, Cypress or
  Cayman on a platform with offline devices. The binary path is entered, and the binary
  program can end up as the program, only when it is acceptable. When the binary path
  fails at any of its steps, the source is compiled again: if that fails its error is
  returned; if it succeeds the setup goes on to create the kernel from the source
  program and returns what \<^verbatim>\<open>mwCreateKernel\<close> returns, success when the kernel could be
  created.
\<close>

theorem il_kernel_selection:
  "(usingILKernelIsAcceptable env ci ap clr \<longleftrightarrow>
      DOUBLEPREC env \<and> \<not> forceNoILKernel clr
      \<and> number_streams ap \<le> maxILKernelStreams \<and> \<not> aux_bg_profile ap
      \<and> mwIsAMDGPUDevice env (ci_di ci)
      \<and> calTarget (ci_di ci)
          \<in> {MW_CAL_TARGET_770, MW_CAL_TARGET_CYPRESS, MW_CAL_TARGET_CAYMAN}
      \<and> mwPlatformSupportsAMDOfflineDevices env)
   \<and> (GetProgramBinary \<in> set (calls (snd (setupSeparationCL env ci ap ias clr)))
        \<and> GetProgramBinary \<notin> set (calls ci)
        \<longrightarrow> usingILKernelIsAcceptable env (ci\<lparr>ci_di := snd (mwSetupCL env)\<rparr>) ap clr)
   \<and> (prog (snd (setupSeparationCL env ci ap ias clr)) = BinaryProgram
        \<and> prog ci \<noteq> BinaryProgram
        \<longrightarrow> usingILKernelIsAcceptable env (ci\<lparr>ci_di := snd (mwSetupCL env)\<rparr>) ap clr)
   \<and> (fst (mwSetupCL env) = CL_SUCCESS
        \<and> separationCheckDevCapabilities env (snd (mwSetupCL env)) ap ias = None
        \<and> usingILKernelIsAcceptable env (ci\<lparr>ci_di := snd (mwSetupCL env)\<rparr>) ap clr
        \<and> getCompilerFlags env True
        \<and> mwSetProgramFromSrc env 0 = CL_SUCCESS
        \<and> fst (setProgramFromILKernel env ci) \<noteq> CL_SUCCESS
        \<longrightarrow> fst (setupSeparationCL env ci ap ias clr)
              = (if mwSetProgramFromSrc env 1 = CL_SUCCESS then mwCreateKernel env
                 else mwSetProgramFromSrc env 1)
            \<and> (mwSetProgramFromSrc env 1 = CL_SUCCESS
                 \<longrightarrow> prog (snd (setupSeparationCL env ci ap ias clr)) = SourceProgram)
            \<and> (mwSetProgramFromSrc env 1 = CL_SUCCESS \<and> mwCreateKernel env = CL_SUCCESS
                 \<longrightarrow> fst (setupSeparationCL env ci ap ias clr) = CL_SUCCESS
                     \<and> separationKernel (snd (setupSeparationCL env ci ap ias clr)) = Some SourceProgram))"
proof (intro conjI)
  show "usingILKernelIsAcceptable env ci ap clr \<longleftrightarrow>
      DOUBLEPREC env \<and> \<not> forceNoILKernel clr
      \<and> number_streams ap \<le> maxILKernelStreams \<and> \<not> aux_bg_profile ap
      \<and> mwIsAMDGPUDevice env (ci_di ci)
      \<and> calTarget (ci_di ci)
          \<in> {MW_CAL_TARGET_770, MW_CAL_TARGET_CYPRESS, MW_CAL_TARGET_CAYMAN}
      \<and> mwPlatformSupportsAMDOfflineDevices env"
    by (auto simp: usingILKernelIsAcceptable_def isILKernelTarget_def Let_def not_less)
  show "GetProgramBinary \<in> set (calls (snd (setupSeparationCL env ci ap ias clr)))
        \<and> GetProgramBinary \<notin> set (calls ci)
        \<longrightarrow> usingILKernelIsAcceptable env (ci\<lparr>ci_di := snd (mwSetupCL env)\<rparr>) ap clr"
    by (auto simp: setup_defs split: if_splits prod.splits)
  show "prog (snd (setupSeparationCL env ci ap ias clr)) = BinaryProgram
        \<and> prog ci \<noteq> BinaryProgram
        \<longrightarrow> usingILKernelIsAcceptable env (ci\<lparr>ci_di := snd (mwSetupCL env)\<rparr>) ap clr"
    by (auto simp: setup_defs split: if_splits prod.splits)
  show "fst (mwSetupCL env) = CL_SUCCESS
        \<and> separationCheckDevCapabilities env (snd (mwSetupCL env)) ap ias = None
        \<and> usingILKernelIsAcceptable env (ci\<lparr>ci_di := snd (mwSetupCL env)\<rparr>) ap clr
        \<and> getCompilerFlags env True
        \<and> mwSetProgramFromSrc env 0 = CL_SUCCESS
        \<and> fst (setProgramFromILKernel env ci) \<noteq> CL_SUCCESS
        \<longrightarrow> fst (setupSeparationCL env ci ap ias clr)
              = (if mwSetProgramFromSrc env 1 = CL_SUCCESS then mwCreateKernel env
                 else mwSetProgramFromSrc env 1)
            \<and> (mwSetProgramFromSrc env 1 = CL_SUCCESS
                 \<longrightarrow> prog (snd (setupSeparationCL env ci ap ias clr)) = SourceProgram)
            \<and> (mwSetProgramFromSrc env 1 = CL_SUCCESS \<and> mwCreateKernel env = CL_SUCCESS
                 \<longrightarrow> fst (setupSeparationCL env ci ap ias clr) = CL_SUCCESS
                     \<and> separationKernel (snd (setupSeparationCL env ci ap ias clr)) = Some SourceProgram)"
    by (auto simp: setup_defs split: if_splits prod.splits)
qed


text \<open>
  C8 as stated fails when the fallback compilation succeeds and the creation of the kernel
  does not: the binary cannot be patched, the source is compiled again successfully,
  \<^verbatim>\<open>mwCreateKernel\<close> returns \<open>-46\<close> and so does the setup.
\<close>

theorem il_kernel_selection_counterexample:
  "usingILKernelIsAcceptable (setup_env\<lparr>mwCreateKernel := - 46\<rparr>) fresh_ci wu_params plain_request
   \<and> fst (setProgramFromILKernel (setup_env\<lparr>mwCreateKernel := - 46\<rparr>) fresh_ci) \<noteq> CL_SUCCESS
   \<and> mwSetProgramFromSrc (setup_env\<lparr>mwCreateKernel := - 46\<rparr>) 1 = CL_SUCCESS
   \<and> fst (setupSeparationCL (setup_env\<lparr>mwCreateKernel := - 46\<rparr>) fresh_ci wu_params
             (\<lambda>i. \<lparr>r_steps = 500, mu_steps = 10000, nu_steps = 3\<rparr>) plain_request)
      \<noteq> CL_SUCCESS"
  by (simp add: setup_defs setup_example_defs mem_defs CL_SUCCESS_def MW_CL_ERROR_def
      separationCheckDevCapabilities_def usingILKernelIsAcceptable_def isILKernelTarget_def
      maxILKernelStreams_def)

text \<open>The example collaborators fail to patch the binary: the setup ends with the
  kernel of the source program. Were the patch to succeed, the binary program would be
  the program.\<close>

theorem il_kernel_selection_witness:
  "usingILKernelIsAcceptable setup_env (fresh_ci\<lparr>ci_di := snd (mwSetupCL setup_env)\<rparr>) wu_params
     plain_request
   \<and> fst (mwSetupCL setup_env) = CL_SUCCESS
   \<and> separationCheckDevCapabilities setup_env (snd (mwSetupCL setup_env)) wu_params
        (\<lambda>i. \<lparr>r_steps = 500, mu_steps = 10000, nu_steps = 3\<rparr>) = None
   \<and> getCompilerFlags setup_env True
   \<and> mwSetProgramFromSrc setup_env 0 = CL_SUCCESS
   \<and> fst (setProgramFromILKernel setup_env fresh_ci) \<noteq> CL_SUCCESS
   \<and> mwSetProgramFromSrc setup_env 1 = CL_SUCCESS
   \<and> mwCreateKernel setup_env = CL_SUCCESS
   \<and> GetProgramBinary \<in> set (calls (snd (setupSeparationCL setup_env fresh_ci wu_params
        (\<lambda>i. \<lparr>r_steps = 500, mu_steps = 10000, nu_steps = 3\<rparr>) plain_request)))
   \<and> GetProgramBinary \<notin> set (calls fresh_ci)
   \<and> fst (setupSeparationCL setup_env fresh_ci wu_params
             (\<lambda>i. \<lparr>r_steps = 500, mu_steps = 10000, nu_steps = 3\<rparr>) plain_request) = CL_SUCCESS
   \<and> prog (snd (setupSeparationCL setup_env fresh_ci wu_params
             (\<lambda>i. \<lparr>r_steps = 500, mu_steps = 10000, nu_steps = 3\<rparr>) plain_request))
      = SourceProgram
   \<and> separationKernel (snd (setupSeparationCL setup_env fresh_ci wu_params
             (\<lambda>i. \<lparr>r_steps = 500, mu_steps = 10000, nu_steps = 3\<rparr>) plain_request))
      = Some SourceProgram
   \<and> prog (snd (setupSeparationCL
             (setup_env\<lparr>getModifiedAMDBinary := True\<rparr>) fresh_ci wu_params
             (\<lambda>i. \<lparr>r_steps = 500, mu_steps = 10000, nu_steps = 3\<rparr>) plain_request))
      = BinaryProgram
   \<and> prog fresh_ci \<noteq> BinaryProgram"
  using il_kernel_selection
    [of setup_env fresh_ci wu_params plain_request
        "\<lambda>i. \<lparr>r_steps = 500, mu_steps = 10000, nu_steps = 3\<rparr>"]
    il_kernel_selection
    [of "setup_env\<lparr>getModifiedAMDBinary := True\<rparr>" fresh_ci wu_params plain_request
        "\<lambda>i. \<lparr>r_steps = 500, mu_steps = 10000, nu_steps = 3\<rparr>"]
  by (simp add: setup_defs setup_example_defs mem_defs CL_SUCCESS_def MW_CL_ERROR_def
      separationCheckDevCapabilities_def usingILKernelIsAcceptable_def isILKernelTarget_def
      maxILKernelStreams_def)

section \<open>The cost estimator\<close>

text \<open>Whatever the host's doubles give, line 114 makes the chunk estimate positive.\<close>

lemma findNChunk_positive: "findNChunk env ap ia di clr = Some n \<Longrightarrow> n \<noteq> 0"
  by (auto simp: findNChunk_def split: option.splits if_splits)

text \<open>The cast of a double between \<open>-1\<close> and \<open>2 ^ 32\<close>, with zero replaced by one, is the
  double rounded down, or 1 when that is less.\<close>

lemma cast_or_one:
  assumes "- 1 < d" and "d < 2 ^ 32"
  shows "(case double_to_cl_uint (Finite d) of
            None \<Rightarrow> None
          | Some n \<Rightarrow> Some (if n = 0 then 1 else n))
         = Some (word_of_int (max 1 \<lfloor>d\<rfloor>))"
proof (cases "d < 0")
  case True
  then have c: "\<lceil>d\<rceil> = 0" using assms(1) by (simp add: ceiling_eq_iff)
  have "\<lfloor>d\<rfloor> < 0" using True by (simp add: floor_less_iff)
  then have "max 1 \<lfloor>d\<rfloor> = 1" by simp
  then show ?thesis using assms True c by (simp add: double_to_cl_uint_def)
next
  case False
  then have f0: "0 \<le> \<lfloor>d\<rfloor>" by simp
  have f1: "\<lfloor>d\<rfloor> < 2 ^ 32" using assms(2) by (simp add: floor_less_iff)
  have "uint (word_of_int \<lfloor>d\<rfloor> :: 32 word) = \<lfloor>d\<rfloor>"
    using f0 f1 by (simp add: uint_word_of_int take_bit_int_eq_self)
  then have z: "(word_of_int \<lfloor>d\<rfloor> :: 32 word) = 0 \<longleftrightarrow> \<lfloor>d\<rfloor> = 0"
    by (metis uint_0_eq word_of_int_0)
  have k: "max 1 k = (if k = 0 then 1 else k)" if "0 \<le> k" for k :: int
    using that by (auto simp: max_def)
  have m: "max 1 \<lfloor>d\<rfloor> = (if \<lfloor>d\<rfloor> = 0 then 1 else \<lfloor>d\<rfloor>)" using f0 by (rule k)
  have "double_to_cl_uint (Finite d) = Some (word_of_int \<lfloor>d\<rfloor>)"
    using assms False by (simp add: double_to_cl_uint_def)
  then show ?thesis unfolding m using z by simp
qed

text \<open>
  C3, as the code has it on a host with binary64 doubles. The target chunk count is never
  0. When the double quotient \<^verbatim>\<open>estIterTime / timePerIter\<close> is finite, greater than \<open>-1\<close>
  and less than \<open>2 ^ 32\<close>, the count is that double rounded down (the cast of line 112
  truncates), or 1 when that is less. For any other quotient, finite or not, the cast is
  undefined and \<^verbatim>\<open>findNChunk\<close> has no result.
\<close>

theorem findNChunk_truncates:
  assumes "quotientAsUInt env = binary64_quotientAsUInt gf"
  shows "(findNChunk env ap ia di clr = Some n \<longrightarrow> n \<noteq> 0)
         \<and> (binary64_quotient gf di (perIter ap ia) clr = Finite d \<and> - 1 < d \<and> d < 2 ^ 32
              \<longrightarrow> findNChunk env ap ia di clr = Some (word_of_int (max 1 \<lfloor>d\<rfloor>)))
         \<and> (binary64_quotient gf di (perIter ap ia) clr = Finite d \<and> (d \<le> - 1 \<or> 2 ^ 32 \<le> d)
              \<longrightarrow> findNChunk env ap ia di clr = None)
         \<and> (binary64_quotient gf di (perIter ap ia) clr = Infinite
            \<or> binary64_quotient gf di (perIter ap ia) clr = NaN
              \<longrightarrow> findNChunk env ap ia di clr = None)"
proof (intro conjI impI)
  assume "findNChunk env ap ia di clr = Some n"
  then show "n \<noteq> 0" by (rule findNChunk_positive)
next
  assume "binary64_quotient gf di (perIter ap ia) clr = Finite d \<and> - 1 < d \<and> d < 2 ^ 32"
  then show "findNChunk env ap ia di clr = Some (word_of_int (max 1 \<lfloor>d\<rfloor>))"
    using cast_or_one [of d] by (simp add: findNChunk_def assms binary64_quotientAsUInt_def)
next
  assume "binary64_quotient gf di (perIter ap ia) clr = Finite d \<and> (d \<le> - 1 \<or> 2 ^ 32 \<le> d)"
  then show "findNChunk env ap ia di clr = None"
    by (auto simp: findNChunk_def assms binary64_quotientAsUInt_def double_to_cl_uint_def)
next
  assume "binary64_quotient gf di (perIter ap ia) clr = Infinite
          \<or> binary64_quotient gf di (perIter ap ia) clr = NaN"
  then show "findNChunk env ap ia di clr = None"
    by (auto simp: findNChunk_def assms binary64_quotientAsUInt_def double_to_cl_uint_def)
qed

text \<open>
  C3 as stated fails twice. For the example workunit of 10000 by 500 steps, 544 GFLOPS
  and 60 Hz the double quotient is about 21.18: \<^verbatim>\<open>findNChunk\<close> returns 21, and the ceiling
  is 22, of the double as of the exact quotient \<open>109467 / 5168\<close>. And with a throughput
  estimate of 0 the quotient is an infinity, whose cast is undefined: there is an error
  outcome.
\<close>

theorem findNChunk_truncates_counterexample:
  "findNChunk plan_env wu_params \<lparr>r_steps = 500, mu_steps = 10000, nu_steps = 3\<rparr> gpu_device
     plain_request = Some 21
   \<and> binary64_quotient (\<lambda>di. Finite 544) gpu_device
        (perIter wu_params \<lparr>r_steps = 500, mu_steps = 10000, nu_steps = 3\<rparr>) plain_request
      = Finite (5962117119888813 / 281474976710656)
   \<and> \<lceil>5962117119888813 / 281474976710656 :: real\<rceil> = 22
   \<and> \<lceil>1000 * (36489 * 10000 * 500 / 10 ^ 9) / (95 / 100 * 544) / (1000 / 60) :: real\<rceil> = 22
   \<and> findNChunk (plan_env\<lparr>quotientAsUInt := binary64_quotientAsUInt (\<lambda>di. Finite 0)\<rparr>)
        wu_params \<lparr>r_steps = 500, mu_steps = 10000, nu_steps = 3\<rparr> gpu_device plain_request
      = None"
  by (simp add: example_defs findNChunk_def perIter_def)

text \<open>
  The example again. With 45 GFLOPS and 15625 by 15200 steps the exact quotient is the
  integer 12163; the double quotient is just below it and the count is 12162. With
  \<open>2 ^ -30\<close> GFLOPS the quotient is finite and too large for a \<^verbatim>\<open>cl_uint\<close>, and with 0
  GFLOPS it is an infinity.
\<close>

theorem findNChunk_truncates_witness:
  "quotientAsUInt plan_env = binary64_quotientAsUInt (\<lambda>di. Finite 544)
   \<and> binary64_quotient (\<lambda>di. Finite 544) gpu_device
        (perIter wu_params \<lparr>r_steps = 500, mu_steps = 10000, nu_steps = 3\<rparr>) plain_request
      = Finite (5962117119888813 / 281474976710656)
   \<and> (- 1 :: real) < 5962117119888813 / 281474976710656
   \<and> (5962117119888813 / 281474976710656 :: real) < 2 ^ 32
   \<and> findNChunk plan_env wu_params \<lparr>r_steps = 500, mu_steps = 10000, nu_steps = 3\<rparr>
        gpu_device plain_request = Some 21
   \<and> (word_of_int (max 1 \<lfloor>5962117119888813 / 281474976710656 :: real\<rfloor>) :: 32 word) = 21
   \<and> binary64_quotient (\<lambda>di. Finite 45) gpu_device
        (perIter wu_params \<lparr>r_steps = 15200, mu_steps = 15625, nu_steps = 3\<rparr>) plain_request
      = Finite (6686679964319743 / 549755813888)
   \<and> findNChunk (plan_env\<lparr>quotientAsUInt := binary64_quotientAsUInt (\<lambda>di. Finite 45)\<rparr>)
        wu_params \<lparr>r_steps = 15200, mu_steps = 15625, nu_steps = 3\<rparr> gpu_device plain_request
      = Some 12162
   \<and> (1000 * (36489 * 15625 * 15200 / 10 ^ 9) / (95 / 100 * 45) / (1000 / 60) :: real) = 12163
   \<and> binary64_quotient (\<lambda>di. Finite (1 / 2 ^ 30)) gpu_device
        (perIter wu_params \<lparr>r_steps = 500, mu_steps = 10000, nu_steps = 3\<rparr>) plain_request
      = Finite (791843679985233 / 64)
   \<and> (2 ^ 32 :: real) \<le> 791843679985233 / 64
   \<and> findNChunk (plan_env\<lparr>quotientAsUInt := binary64_quotientAsUInt (\<lambda>di. Finite (1 / 2 ^ 30))\<rparr>)
        wu_params \<lparr>r_steps = 500, mu_steps = 10000, nu_steps = 3\<rparr> gpu_device plain_request
      = None
   \<and> binary64_quotient (\<lambda>di. Finite 0) gpu_device
        (perIter wu_params \<lparr>r_steps = 500, mu_steps = 10000, nu_steps = 3\<rparr>) plain_request
      = Infinite
   \<and> findNChunk (plan_env\<lparr>quotientAsUInt := binary64_quotientAsUInt (\<lambda>di. Finite 0)\<rparr>)
        wu_params \<lparr>r_steps = 500, mu_steps = 10000, nu_steps = 3\<rparr> gpu_device plain_request
      = None"
  using findNChunk_truncates
    [of plan_env "\<lambda>di. Finite 544" wu_params
        "\<lparr>r_steps = 500, mu_steps = 10000, nu_steps = 3\<rparr>" gpu_device plain_request 21
        "5962117119888813 / 281474976710656"]
    findNChunk_truncates
    [of "plan_env\<lparr>quotientAsUInt := binary64_quotientAsUInt (\<lambda>di. Finite 45)\<rparr>"
        "\<lambda>di. Finite 45" wu_params
        "\<lparr>r_steps = 15200, mu_steps = 15625, nu_steps = 3\<rparr>" gpu_device plain_request 12162
        "6686679964319743 / 549755813888"]
    findNChunk_truncates
    [of "plan_env\<lparr>quotientAsUInt := binary64_quotientAsUInt (\<lambda>di. Finite (1 / 2 ^ 30))\<rparr>"
        "\<lambda>di. Finite (1 / 2 ^ 30)" wu_params
        "\<lparr>r_steps = 500, mu_steps = 10000, nu_steps = 3\<rparr>" gpu_device plain_request 1
        "791843679985233 / 64"]
    findNChunk_truncates
    [of "plan_env\<lparr>quotientAsUInt := binary64_quotientAsUInt (\<lambda>di. Finite 0)\<rparr>"
        "\<lambda>di. Finite 0" wu_params
        "\<lparr>r_steps = 500, mu_steps = 10000, nu_steps = 3\<rparr>" gpu_device plain_request 1 0]
  by (simp add: example_defs findNChunk_def perIter_def)

section \<open>The phases of the planner\<close>

lemma magicChunkSize_Inr:
  assumes "magicChunkSize est clr bs s = Inr s'"
  obtains n magic where "est = Some n" and "magic \<noteq> 0"
    and "s' = s\<lparr>nChunkEstimate := ucast n, chunkSize := ucast magic * bs\<rparr>"
    and "0 < sint (magicFactor clr) \<Longrightarrow> magic = magicFactor clr"
proof (cases est)
  case None
  with assms show ?thesis by (simp add: magicChunkSize_def)
next
  case (Some n)
  show ?thesis
  proof (cases "sint (magicFactor clr) \<le> 0")
    case True
    define m :: "32 word" where "m = ucast (area s div (ucast n * bs))"
    have "s' = s\<lparr>nChunkEstimate := ucast n, chunkSize := ucast (if m = 0 then 1 else m) * bs\<rparr>"
      using assms Some True by (simp add: magicChunkSize_def Let_def m_def split: if_splits)
    moreover have "(if m = 0 then 1 else m) \<noteq> 0" by simp
    ultimately show ?thesis using that [of n "if m = 0 then 1 else m"] Some True by simp
  next
    case False
    then have nz: "magicFactor clr \<noteq> 0" by auto
    have "s' = s\<lparr>nChunkEstimate := ucast n, chunkSize := ucast (magicFactor clr) * bs\<rparr>"
      using assms Some False by (simp add: magicChunkSize_def Let_def)
    then show ?thesis using that [of n "magicFactor clr"] Some nz by simp
  qed
qed

lemma padToChunks_Inr:
  assumes "padToChunks force bs s = Inr s'"
  shows "bs \<noteq> 0" and "chunkSize s \<noteq> 0" and "nChunk s' \<noteq> 0"
    and "r s' = r s" and "mu s' = mu s" and "nu s' = nu s" and "area s' = area s"
    and "nChunkEstimate s' = nChunkEstimate s" and "local0 s' = local0 s"
    and "global0 s' = global0 s"
    and "force \<Longrightarrow> nChunk s' = 1"
    and "nChunk s' = 1 \<Longrightarrow>
           effectiveArea s' = bs * mwDivRoundup (area s) bs \<and> chunkSize s' = effectiveArea s'"
    and "nChunk s' \<noteq> 1 \<Longrightarrow>
           effectiveArea s' = chunkSize s * mwDivRoundup (area s) (chunkSize s)
           \<and> nChunk s' = mwDivRoundup (effectiveArea s') (chunkSize s)
           \<and> chunkSize s' = effectiveArea s' div nChunk s'"
  using assms by (auto simp: padToChunks_def Let_def split: if_splits)

lemma padToChunks_extra:
  "padToChunks force bs s = Inr s' \<Longrightarrow> extra s' = ucast (effectiveArea s' - area s')"
  by (auto simp: padToChunks_def Let_def split: if_splits)

lemma padToChunks_quotient:
  "padToChunks force bs s = Inr s' \<Longrightarrow> chunkSize s' = effectiveArea s' div nChunk s'"
  by (auto simp: padToChunks_def Let_def split: if_splits)

lemma clampLoop_skip: "\<not> m < chunkSize s \<Longrightarrow> clampLoop m s = Inr s"
  by (simp add: clampLoop.simps [of m s])

lemma clampLoop_step:
  "m < chunkSize s \<Longrightarrow> clampLoop m s = Inr s' \<Longrightarrow>
     nChunk s * 2 \<noteq> 0
     \<and> clampLoop m (s\<lparr>nChunk := nChunk s * 2,
                        chunkSize := effectiveArea s div (nChunk s * 2)\<rparr>) = Inr s'"
  by (simp add: clampLoop.simps [of m s] split: if_splits)

lemma clampLoop_frame:
  "clampLoop m s = Inr s' \<Longrightarrow>
     effectiveArea s' = effectiveArea s \<and> r s' = r s \<and> mu s' = mu s \<and> nu s' = nu s
     \<and> area s' = area s \<and> nChunkEstimate s' = nChunkEstimate s \<and> extra s' = extra s
     \<and> local0 s' = local0 s \<and> global0 s' = global0 s"
proof (induction m s rule: clampLoop.induct)
  case (1 m s)
  show ?case
  proof (cases "m < chunkSize s")
    case False
    then have "s' = s" using "1.prems" by (simp add: clampLoop_skip)
    then show ?thesis by simp
  next
    case True
    note st = clampLoop_step [OF True "1.prems"]
    from "1.IH" [OF True conjunct1 [OF st] conjunct2 [OF st]] show ?thesis by simp
  qed
qed

lemma clampLoop_bound: "clampLoop m s = Inr s' \<Longrightarrow> chunkSize s' \<le> m"
proof (induction m s rule: clampLoop.induct)
  case (1 m s)
  show ?case
  proof (cases "m < chunkSize s")
    case False
    then have "s' = s" using "1.prems" by (simp add: clampLoop_skip)
    then show ?thesis using False by (simp add: not_less)
  next
    case True
    note st = clampLoop_step [OF True "1.prems"]
    from "1.IH" [OF True conjunct1 [OF st] conjunct2 [OF st]] show ?thesis .
  qed
qed

lemma clampLoop_doubles:
  "clampLoop m s = Inr s' \<Longrightarrow> m < chunkSize s \<Longrightarrow>
     nChunk s' \<noteq> 0 \<and> chunkSize s' = effectiveArea s div nChunk s'
     \<and> (\<exists>j>0. nChunk s' = nChunk s * 2 ^ j)"
proof (induction m s rule: clampLoop.induct)
  case (1 m s)
  let ?t = "s\<lparr>nChunk := nChunk s * 2, chunkSize := effectiveArea s div (nChunk s * 2)\<rparr>"
  note st = clampLoop_step [OF "1.prems"(2) "1.prems"(1)]
  show ?case
  proof (cases "m < chunkSize ?t")
    case False
    then have "clampLoop m ?t = Inr ?t" by (rule clampLoop_skip)
    then have s': "s' = ?t" using st by simp
    have "nChunk s * 2 = nChunk s * 2 ^ 1" by simp
    then have "\<exists>j>0. nChunk s * 2 = nChunk s * 2 ^ j" by blast
    then show ?thesis unfolding s' using st by simp
  next
    case True
    from "1.IH" [OF "1.prems"(2) conjunct1 [OF st] conjunct2 [OF st] True]
    have a: "nChunk s' \<noteq> 0" and b: "chunkSize s' = effectiveArea s div nChunk s'"
      and c: "\<exists>j>0. nChunk s' = nChunk s * 2 * 2 ^ j" by simp_all
    from c obtain j where "nChunk s' = nChunk s * 2 ^ Suc j" by (auto simp: mult.assoc)
    then have "\<exists>j>0. nChunk s' = nChunk s * 2 ^ j" by blast
    with a b show ?thesis by simp
  qed
qed

lemma clampChunks_Planned:
  assumes "clampChunks m bs s = Planned s'"
  shows "(\<not> m < chunkSize s \<and> s' = s)
         \<or> (m < chunkSize s \<and> clampLoop m s = Inr s' \<and> local0 s' \<noteq> 0
              \<and> chunkSize s' mod local0 s' = 0)"
  using assms
  by (auto simp: clampChunks_def mwDivisible_def split: if_splits sum.splits)

lemma clampChunks_Failed:
  assumes "clampChunks m bs s = Failed e s'"
  shows "m < chunkSize s \<and> clampLoop m s = Inr s' \<and> e = TooLazyForLargeWorkunit"
  using assms
  by (auto simp: clampChunks_def mwDivisible_def split: if_splits sum.splits)

lemma clampChunks_Failed_remainder:
  assumes "clampChunks m bs s = Failed e s'"
  shows "local0 s' \<noteq> 0 \<and> chunkSize s' mod local0 s' \<noteq> 0"
  using assms
  by (auto simp: clampChunks_def mwDivisible_def split: if_splits sum.splits)

text \<open>A successful plan on a device that is not a CPU went through the four phases.\<close>

lemma findRunSizes_Planned:
  assumes "findRunSizes env sizes di ap ia clr = Planned rs"
    and "devType di \<noteq> CL_DEVICE_TYPE_CPU"
  obtains s1 s2 s3 where
    "mu_steps ia \<noteq> 0" and "warpSize di \<noteq> 0"
    and "wgs (snd (mwGetWorkGroupInfo env)) mod ucast (warpSize di) = 0"
    and "magicChunkSize (findNChunk env ap ia di clr) clr (blockSize env di)
           (sizes\<lparr>r := r_steps ia, mu := mu_steps ia, nu := nu_steps ia,
                   area := ucast (r_steps ia) * ucast (mu_steps ia),
                   local0 := ucast (warpSize di)\<rparr>) = Inr s1"
    and "padToChunks (nonResponsive clr \<or> nonOutput di) (blockSize env di) s1 = Inr s2"
    and "clampChunks (maxWorkDim di) (blockSize env di) s2 = Planned s3"
    and "rs = s3\<lparr>global0 := chunkSize s3\<rparr>"
    and "area s3 \<le> effectiveArea s3"
  using assms
  by (auto simp: findRunSizes_def Let_def mwDivisible_def ucast_32_64_eq_0 not_less
      split: if_splits sum.splits outcome.splits)


section \<open>Rounding up without overflow\<close>

text \<open>\<^verbatim>\<open>mwDivRoundup(a, c)\<close> is the least number of chunks of size \<open>c\<close> that cover \<open>a\<close>; the
  addition of 1 in it cannot wrap around.\<close>

lemma unat_mwDivRoundup_both:
  fixes a c :: "64 word"
  assumes "c \<noteq> 0"
  shows "unat a \<le> unat c * unat (mwDivRoundup a c)
         \<and> unat c * unat (mwDivRoundup a c) < unat a + unat c"
proof (cases "a mod c = 0")
  case True
  have c0: "0 < unat c" using assms by (simp add: unat_gt_0)
  from True have "unat a mod unat c = 0" by (metis unat_mod unat_0)
  then have e: "unat c * (unat a div unat c) = unat a" by auto
  have "unat (mwDivRoundup a c) = unat a div unat c"
    using True by (simp add: mwDivRoundup_def unat_div)
  then show ?thesis using e c0 by simp
next
  case False
  have c0: "0 < unat c" using assms by (simp add: unat_gt_0)
  have a64: "unat a < 18446744073709551616" using unsigned_less [of a, where 'a = nat] by simp
  from False have m: "unat a mod unat c \<noteq> 0" by (metis unat_mod unat_eq_zero)
  then have c2: "2 \<le> unat c" using c0 by (cases "unat c = 1") auto
  have "unat a div unat c \<le> unat a div 2" using c2 by (simp add: div_le_mono2)
  then have "unat a div unat c + 1 < 18446744073709551616" using a64 by linarith
  then have "unat a div unat c + 1 < 2 ^ 64" by simp
  then have "unat (a div c) + unat (1 :: 64 word) < 2 ^ LENGTH(64)"
    by (simp add: unat_div)
  then have "unat (a div c + 1) = unat (a div c) + unat (1 :: 64 word)"
    by (simp only: unat_add_lem)
  then have k: "unat (mwDivRoundup a c) = unat a div unat c + 1"
    using False by (simp add: mwDivRoundup_def unat_div)
  have d: "unat c * (unat a div unat c) + unat a mod unat c = unat a" by simp
  have lt: "unat a mod unat c < unat c" using c0 by simp
  have e: "unat c * (unat a div unat c + 1) = unat c * (unat a div unat c) + unat c"
    by (simp add: algebra_simps)
  show ?thesis unfolding k e using d lt m by linarith
qed

lemmas unat_mwDivRoundup =
  unat_mwDivRoundup_both [THEN conjunct1] unat_mwDivRoundup_both [THEN conjunct2]

lemma mwDivRoundup_of_multiple:
  fixes c k :: "64 word"
  assumes "c \<noteq> 0" and "unat c * unat k < 2 ^ 64"
  shows "mwDivRoundup (c * k) c = k" and "k \<noteq> 0 \<Longrightarrow> (c * k) div k = c"
proof -
  have c0: "0 < unat c" using assms(1) by (simp add: unat_gt_0)
  have u: "unat (c * k) = unat c * unat k"
    using assms(2) by (simp add: unat_mult_lem [symmetric])
  have "unat ((c * k) mod c) = 0" by (simp add: unat_mod u)
  then have z: "(c * k) mod c = 0" by (simp add: unat_eq_zero)
  have "unat ((c * k) div c) = unat k" using c0 by (simp add: unat_div u)
  then have "(c * k) div c = k" by (rule word_unat_eq_iff [THEN iffD2])
  then show "mwDivRoundup (c * k) c = k" using z by (simp add: mwDivRoundup_def)
  assume "k \<noteq> 0"
  then have k0: "0 < unat k" by (simp add: unat_gt_0)
  have "unat ((c * k) div k) = unat c" using k0 by (simp add: unat_div u)
  then show "(c * k) div k = c" by (rule word_unat_eq_iff [THEN iffD2])
qed

text \<open>
  The count of chunks taken after padding. When the padded area wraps around, what is
  left of it is smaller than one chunk and the count is 0 or 1; so a count of two or more
  is the number of chunks that cover the area, the padding did not wrap, and the division
  of line 235 gives back the chunk size.
\<close>

lemma chunk_count_exact:
  fixes a c :: "64 word"
  assumes "c \<noteq> 0"
    and "mwDivRoundup (c * mwDivRoundup a c) c \<noteq> 0"
    and "mwDivRoundup (c * mwDivRoundup a c) c \<noteq> 1"
  shows "unat c * unat (mwDivRoundup a c) < 2 ^ 64"
    and "mwDivRoundup (c * mwDivRoundup a c) c = mwDivRoundup a c"
    and "(c * mwDivRoundup a c) div mwDivRoundup (c * mwDivRoundup a c) c = c"
proof -
  define k where "k = mwDivRoundup a c"
  define e where "e = c * k"
  have c0: "0 < unat c" using assms(1) by (simp add: unat_gt_0)
  have a64: "unat a < 2 ^ 64" using unsigned_less [of a, where 'a = nat] by simp
  have lo: "unat a \<le> unat c * unat k" and hi: "unat c * unat k < unat a + unat c"
    unfolding k_def using unat_mwDivRoundup [OF assms(1), of a] by simp_all
  have nowrap: "unat c * unat k < 2 ^ 64"
  proof (rule ccontr)
    assume "\<not> unat c * unat k < 2 ^ 64"
    then have ge: "2 ^ 64 \<le> unat c * unat k" by simp
    have "unat e = (unat c * unat k) mod 2 ^ 64" by (simp add: e_def unat_word_ariths)
    also have "\<dots> = unat c * unat k - 2 ^ 64"
    proof -
      have "unat c * unat k - 2 ^ 64 < 2 ^ 64" using hi a64 unsigned_less [of c, where 'a = nat]
        by simp
      then show ?thesis using ge by (metis le_add_diff_inverse mod_add_self1 mod_less)
    qed
    finally have ue: "unat e = unat c * unat k - 2 ^ 64" .
    then have small: "unat e < unat c" using hi a64 ge by linarith
    have l: "unat e \<le> unat c * unat (mwDivRoundup e c)"
      and h: "unat c * unat (mwDivRoundup e c) < unat e + unat c"
      using unat_mwDivRoundup [OF assms(1), of e] by simp_all
    from h small have "unat c * unat (mwDivRoundup e c) < unat c * 2" by linarith
    then have "unat (mwDivRoundup e c) < 2" using c0 by simp
    then have "unat (mwDivRoundup e c) = 0 \<or> unat (mwDivRoundup e c) = 1" by linarith
    then have "mwDivRoundup e c = 0 \<or> mwDivRoundup e c = 1"
      by (metis unat_eq_zero unat_1 word_unat_eq_iff)
    then show False using assms(2,3) by (simp add: e_def k_def)
  qed
  show "unat c * unat (mwDivRoundup a c) < 2 ^ 64" using nowrap by (simp add: k_def)
  have n: "mwDivRoundup (c * k) c = k"
    by (rule mwDivRoundup_of_multiple(1) [OF assms(1) nowrap])
  then show "mwDivRoundup (c * mwDivRoundup a c) c = mwDivRoundup a c" by (simp add: k_def)
  have "k \<noteq> 0" using assms(2) n by (simp add: k_def)
  then have "(c * k) div k = c" by (rule mwDivRoundup_of_multiple(2) [OF assms(1) nowrap])
  then show "(c * mwDivRoundup a c) div mwDivRoundup (c * mwDivRoundup a c) c = c"
    using n by (simp add: k_def)
qed

section \<open>What a failed plan leaves behind\<close>

lemma findRunSizes_Failed:
  assumes "findRunSizes env sizes di ap ia clr = Failed e s'"
  shows "(e \<in> {WorkGroupInfoFailed, NotMultipleOfWarpSize}
          \<and> s' = sizes\<lparr>r := r_steps ia, mu := mu_steps ia, nu := nu_steps ia,
                         area := ucast (r_steps ia) * ucast (mu_steps ia)\<rparr>)
         \<or> (\<exists>s1 s2.
               magicChunkSize (findNChunk env ap ia di clr) clr (blockSize env di)
                 (sizes\<lparr>r := r_steps ia, mu := mu_steps ia, nu := nu_steps ia,
                         area := ucast (r_steps ia) * ucast (mu_steps ia),
                         local0 := ucast (warpSize di)\<rparr>) = Inr s1
               \<and> padToChunks (nonResponsive clr \<or> nonOutput di) (blockSize env di) s1 = Inr s2
               \<and> ((e = TooLazyForLargeWorkunit
                     \<and> clampChunks (maxWorkDim di) (blockSize env di) s2 = Failed e s')
                    \<or> (\<exists>s3. e = EffectiveAreaLessThanArea
                          \<and> clampChunks (maxWorkDim di) (blockSize env di) s2 = Planned s3
                          \<and> s' = s3\<lparr>global0 := chunkSize s3\<rparr>
                          \<and> effectiveArea s3 < area s3)))"
  using assms overflow_guard_never_fires [of "mu_steps ia" "r_steps ia"]
  by (auto simp: findRunSizes_def Let_def ucast_32_64_eq_0
      split: if_splits sum.splits outcome.splits dest: clampChunks_Failed)

lemma clampChunks_frame:
  assumes "clampChunks m bs s = Planned s' \<or> clampChunks m bs s = Failed e s'"
  shows "r s' = r s \<and> mu s' = mu s \<and> nu s' = nu s \<and> area s' = area s
         \<and> local0 s' = local0 s \<and> effectiveArea s' = effectiveArea s
         \<and> nChunkEstimate s' = nChunkEstimate s \<and> extra s' = extra s
         \<and> global0 s' = global0 s"
proof (cases "m < chunkSize s")
  case True
  with assms have "clampLoop m s = Inr s'"
    using clampChunks_Planned [of m bs s s'] clampChunks_Failed [of m bs s e s'] by auto
  then show ?thesis using clampLoop_frame [of m s s'] by simp
next
  case False
  with assms have "s' = s"
    using clampChunks_Planned [of m bs s s'] clampChunks_Failed [of m bs s e s'] by auto
  then show ?thesis by simp
qed

lemma clampChunks_quotient:
  assumes "clampChunks m bs s = Planned s' \<or> clampChunks m bs s = Failed e s'"
    and "nChunk s \<noteq> 0" and "chunkSize s = effectiveArea s div nChunk s"
  shows "nChunk s' \<noteq> 0 \<and> chunkSize s' = effectiveArea s' div nChunk s'"
proof (cases "m < chunkSize s")
  case True
  with assms(1) have l: "clampLoop m s = Inr s'"
    using clampChunks_Planned [of m bs s s'] clampChunks_Failed [of m bs s e s'] by auto
  from clampLoop_doubles [OF l True] clampLoop_frame [OF l] show ?thesis by simp
next
  case False
  with assms(1) have "s' = s"
    using clampChunks_Planned [of m bs s s'] clampChunks_Failed [of m bs s e s'] by auto
  then show ?thesis using assms(2,3) by simp
qed

text \<open>
  C2, as the code has it. \<^verbatim>\<open>findRunSizes\<close> fills in the caller's \<^verbatim>\<open>RunSizes\<close> as it goes and
  undoes nothing when it fails. The overflow failure cannot happen: the step counts are
  32 bits wide. After every failure \<^verbatim>\<open>r\<close>, \<^verbatim>\<open>mu\<close>, \<^verbatim>\<open>nu\<close> and \<^verbatim>\<open>area\<close> are those of the new
  integral area. After the device query and warp size failures nothing else has changed.
  After the two late failures the structure holds the plan that was given up: the warp
  size as local size, the chunk estimate of \<^verbatim>\<open>findNChunk\<close>, as effective area the area
  padded to whole blocks or to whole chunks of \<open>magic\<close> blocks (\<open>magic\<close> being the magic
  factor of the request when that is positive), as \<^verbatim>\<open>extra\<close> the low 32 bits of the
  padding, a chunk count that is not zero and as chunk size the effective area divided by
  it. When the plan is given up for its chunk size (within the work dimension, but not a
  multiple of the local size) the global size is still the caller's; when it is given up
  for an effective area smaller than the area, the global size is the chunk size.
\<close>

theorem findRunSizes_failure_state:
  assumes "findRunSizes env sizes di ap ia clr = Failed e s'"
  shows "e \<noteq> AreaOverflows
         \<and> r s' = r_steps ia \<and> mu s' = mu_steps ia \<and> nu s' = nu_steps ia
         \<and> area s' = ucast (r_steps ia) * ucast (mu_steps ia)
         \<and> (e \<in> {WorkGroupInfoFailed, NotMultipleOfWarpSize}
              \<longrightarrow> s' = sizes\<lparr>r := r_steps ia, mu := mu_steps ia, nu := nu_steps ia,
                                area := ucast (r_steps ia) * ucast (mu_steps ia)\<rparr>)
         \<and> (e \<in> {TooLazyForLargeWorkunit, EffectiveAreaLessThanArea}
              \<longrightarrow> local0 s' = ucast (warpSize di)
                  \<and> (\<exists>n. findNChunk env ap ia di clr = Some n \<and> nChunkEstimate s' = ucast n)
                  \<and> (\<exists>magic :: cl_uint.
                        magic \<noteq> 0
                        \<and> (0 < sint (magicFactor clr) \<longrightarrow> magic = magicFactor clr)
                        \<and> (effectiveArea s'
                             = blockSize env di * mwDivRoundup (area s') (blockSize env di)
                           \<or> effectiveArea s'
                             = ucast magic * blockSize env di
                               * mwDivRoundup (area s') (ucast magic * blockSize env di)))
                  \<and> extra s' = ucast (effectiveArea s' - area s')
                  \<and> nChunk s' \<noteq> 0
                  \<and> chunkSize s' = effectiveArea s' div nChunk s')
         \<and> (e = TooLazyForLargeWorkunit
              \<longrightarrow> global0 s' = global0 sizes \<and> chunkSize s' \<le> maxWorkDim di
                  \<and> chunkSize s' mod local0 s' \<noteq> 0)
         \<and> (e = EffectiveAreaLessThanArea
              \<longrightarrow> global0 s' = chunkSize s' \<and> effectiveArea s' < area s')"
proof -
  let ?base = "sizes\<lparr>r := r_steps ia, mu := mu_steps ia, nu := nu_steps ia,
                      area := ucast (r_steps ia) * ucast (mu_steps ia)\<rparr>"
  from findRunSizes_Failed [OF assms]
  consider (early) "e \<in> {WorkGroupInfoFailed, NotMultipleOfWarpSize}" "s' = ?base"
    | (late) s1 s2 s3 where
        "magicChunkSize (findNChunk env ap ia di clr) clr (blockSize env di)
           (?base\<lparr>local0 := ucast (warpSize di)\<rparr>) = Inr s1"
        "padToChunks (nonResponsive clr \<or> nonOutput di) (blockSize env di) s1 = Inr s2"
        "clampChunks (maxWorkDim di) (blockSize env di) s2 = Planned s3
         \<or> clampChunks (maxWorkDim di) (blockSize env di) s2 = Failed e s3"
        "(e = TooLazyForLargeWorkunit \<and> s' = s3
            \<and> clampChunks (maxWorkDim di) (blockSize env di) s2 = Failed e s3)
         \<or> (e = EffectiveAreaLessThanArea \<and> s' = s3\<lparr>global0 := chunkSize s3\<rparr>
              \<and> effectiveArea s3 < area s3)"
    by auto
  then show ?thesis
  proof cases
    case early
    then show ?thesis by auto
  next
    case late
    from late(1) obtain n magic :: "32 word" where
      est: "findNChunk env ap ia di clr = Some n" and m0: "magic \<noteq> 0"
      and s1: "s1 = ?base\<lparr>local0 := ucast (warpSize di), nChunkEstimate := ucast n,
                         chunkSize := ucast magic * blockSize env di\<rparr>"
      and mg: "0 < sint (magicFactor clr) \<longrightarrow> magic = magicFactor clr"
      by (rule magicChunkSize_Inr) blast
    note p = padToChunks_Inr [OF late(2)]
    note c = clampChunks_frame [OF late(3)]
    note q = clampChunks_quotient [OF late(3) p(3) padToChunks_quotient [OF late(2)]]
    have base: "r s3 = r_steps ia \<and> mu s3 = mu_steps ia \<and> nu s3 = nu_steps ia
          \<and> area s3 = ucast (r_steps ia) * ucast (mu_steps ia)
          \<and> local0 s3 = ucast (warpSize di)"
      using c p(4-7) p(9) by (simp add: s1)
    have ne: "nChunkEstimate s3 = ucast n" using c p(8) by (simp add: s1)
    have g: "global0 s3 = global0 sizes" using c p(10) by (simp add: s1)
    have x: "extra s3 = ucast (effectiveArea s3 - area s3)"
      using c padToChunks_extra [OF late(2)] by simp
    have ea: "effectiveArea s3 = blockSize env di * mwDivRoundup (area s3) (blockSize env di)
              \<or> effectiveArea s3
                 = ucast magic * blockSize env di
                   * mwDivRoundup (area s3) (ucast magic * blockSize env di)"
    proof (cases "nChunk s2 = 1")
      case True
      then show ?thesis using p(12) p(7) c by (simp add: s1)
    next
      case False
      then show ?thesis using p(13) p(7) c by (simp add: s1)
    qed
    have plan: "local0 s3 = ucast (warpSize di)
                  \<and> (\<exists>n. findNChunk env ap ia di clr = Some n \<and> nChunkEstimate s3 = ucast n)
                  \<and> (\<exists>magic :: cl_uint.
                        magic \<noteq> 0
                        \<and> (0 < sint (magicFactor clr) \<longrightarrow> magic = magicFactor clr)
                        \<and> (effectiveArea s3
                             = blockSize env di * mwDivRoundup (area s3) (blockSize env di)
                           \<or> effectiveArea s3
                             = ucast magic * blockSize env di
                               * mwDivRoundup (area s3) (ucast magic * blockSize env di)))
                  \<and> extra s3 = ucast (effectiveArea s3 - area s3)
                  \<and> nChunk s3 \<noteq> 0
                  \<and> chunkSize s3 = effectiveArea s3 div nChunk s3"
      using base est ne m0 mg ea x q by blast
    from late(4) show ?thesis
    proof
      assume lazy: "e = TooLazyForLargeWorkunit \<and> s' = s3
            \<and> clampChunks (maxWorkDim di) (blockSize env di) s2 = Failed e s3"
      then have f: "clampChunks (maxWorkDim di) (blockSize env di) s2 = Failed e s3" by simp
      have "chunkSize s3 \<le> maxWorkDim di"
        using clampChunks_Failed [OF f] clampLoop_bound [of "maxWorkDim di" s2 s3] by simp
      moreover have "chunkSize s3 mod local0 s3 \<noteq> 0"
        using clampChunks_Failed_remainder [OF f] by simp
      ultimately show ?thesis using lazy base plan g by simp
    next
      assume inv: "e = EffectiveAreaLessThanArea \<and> s' = s3\<lparr>global0 := chunkSize s3\<rparr>
              \<and> effectiveArea s3 < area s3"
      then show ?thesis using base plan by simp
    qed
  qed
qed

text \<open>
  C2 as stated fails: with a work group size of 200 and a warp size of 32 the planner
  returns \<^verbatim>\<open>CL_TRUE\<close>, and the caller's zeroed structure now holds the steps and the area of
  the integral.
\<close>

theorem findRunSizes_failure_state_counterexample:
  "findRunSizes (plan_env\<lparr>mwGetWorkGroupInfo := (0, \<lparr>wgs = 200\<rparr>)\<rparr>) blank_sizes
     (gpu_device\<lparr>warpSize := 32\<rparr>) wu_params \<lparr>r_steps = 500, mu_steps = 10000, nu_steps = 3\<rparr>
     plain_request
   = Failed NotMultipleOfWarpSize
       (blank_sizes\<lparr>r := 500, mu := 10000, nu := 3, area := 5000000\<rparr>)
   \<and> blank_sizes\<lparr>r := 500, mu := 10000, nu := 3, area := 5000000\<rparr> \<noteq> blank_sizes"
  by (simp add: example_defs plan_defs)

text \<open>
  Three failures. The work group query fails for a caller whose structure still holds
  an older plan: the steps and the area are overwritten and the rest of the old plan
  stays. 200000 by 200000 steps in one forced chunk: after twelve doublings the chunk
  size 9765625 is within the work dimension and is not a multiple of 64; the abandoned
  plan is left behind and the global size is still the caller's 0. The third failure
  needs sizes no device has, a work group of \<open>2 ^ 63\<close> work items: the area of 4294967295
  by 4294967295 steps padded to two blocks of \<open>2 ^ 63\<close> wraps around to 0.
\<close>

theorem findRunSizes_failure_state_witness:
  "findRunSizes (plan_env\<lparr>mwGetWorkGroupInfo := (- 5, \<lparr>wgs = 0\<rparr>)\<rparr>)
       \<lparr>r = 500, mu = 10000, nu = 3, area = 5000000, nChunkEstimate = 21, nChunk = 22,
        chunkSize = 235520, extra = 181440, effectiveArea = 5181440, local0 = 64,
        global0 = 235520\<rparr>
       gpu_device wu_params \<lparr>r_steps = 700, mu_steps = 1600, nu_steps = 640\<rparr> plain_request
     = Failed WorkGroupInfoFailed
       \<lparr>r = 700, mu = 1600, nu = 640, area = 1120000, nChunkEstimate = 21, nChunk = 22,
        chunkSize = 235520, extra = 181440, effectiveArea = 5181440, local0 = 64,
        global0 = 235520\<rparr>
   \<and> findRunSizes plan_env blank_sizes gpu_device wu_params
       \<lparr>r_steps = 200000, mu_steps = 200000, nu_steps = 3\<rparr>
       (plain_request\<lparr>nonResponsive := True\<rparr>)
     = Failed TooLazyForLargeWorkunit
       \<lparr>r = 200000, mu = 200000, nu = 3, area = 40000000000, nChunkEstimate = 169453,
        nChunk = 4096, chunkSize = 9765625, extra = 0, effectiveArea = 40000000000,
        local0 = 64, global0 = 0\<rparr>
   \<and> findNChunk plan_env wu_params \<lparr>r_steps = 200000, mu_steps = 200000, nu_steps = 3\<rparr>
       gpu_device (plain_request\<lparr>nonResponsive := True\<rparr>) = Some 169453
   \<and> blockSize plan_env gpu_device = 5120
   \<and> (40000000000 :: 64 word) = 5120 * mwDivRoundup 40000000000 5120
   \<and> (9765625 :: 64 word) = 40000000000 div 4096
   \<and> (9765625 :: 64 word) \<le> maxWorkDim gpu_device
   \<and> (9765625 :: 64 word) mod 64 = 57
   \<and> findRunSizes (plan_env\<lparr>mwGetWorkGroupInfo := (0, \<lparr>wgs = 9223372036854775808\<rparr>)\<rparr>)
       blank_sizes (gpu_device\<lparr>maxCompUnits := 1\<rparr>) wu_params
       \<lparr>r_steps = 4294967295, mu_steps = 4294967295, nu_steps = 3\<rparr>
       (plain_request\<lparr>nonResponsive := True\<rparr>)
     = Failed EffectiveAreaLessThanArea
       \<lparr>r = 4294967295, mu = 4294967295, nu = 3, area = 18446744065119617025,
        nChunkEstimate = 2141613463, nChunk = 1, chunkSize = 0, extra = 4294967295,
        effectiveArea = 0, local0 = 64, global0 = 0\<rparr>
   \<and> (0 :: 64 word) < 18446744065119617025"
  using findRunSizes_failure_state
    [of "plan_env\<lparr>mwGetWorkGroupInfo := (- 5, \<lparr>wgs = 0\<rparr>)\<rparr>"
        "\<lparr>r = 500, mu = 10000, nu = 3, area = 5000000, nChunkEstimate = 21, nChunk = 22,
        chunkSize = 235520, extra = 181440, effectiveArea = 5181440, local0 = 64,
        global0 = 235520\<rparr>"
        gpu_device wu_params
        "\<lparr>r_steps = 700, mu_steps = 1600, nu_steps = 640\<rparr>" plain_request WorkGroupInfoFailed
        "\<lparr>r = 700, mu = 1600, nu = 640, area = 1120000, nChunkEstimate = 21, nChunk = 22,
        chunkSize = 235520, extra = 181440, effectiveArea = 5181440, local0 = 64,
        global0 = 235520\<rparr>"]
    findRunSizes_failure_state
    [of plan_env blank_sizes gpu_device wu_params
        "\<lparr>r_steps = 200000, mu_steps = 200000, nu_steps = 3\<rparr>"
        "plain_request\<lparr>nonResponsive := True\<rparr>" TooLazyForLargeWorkunit
        "\<lparr>r = 200000, mu = 200000, nu = 3, area = 40000000000, nChunkEstimate = 169453,
        nChunk = 4096, chunkSize = 9765625, extra = 0, effectiveArea = 40000000000,
        local0 = 64, global0 = 0\<rparr>"]
    findRunSizes_failure_state
    [of "plan_env\<lparr>mwGetWorkGroupInfo := (0, \<lparr>wgs = 9223372036854775808\<rparr>)\<rparr>"
        blank_sizes "gpu_device\<lparr>maxCompUnits := 1\<rparr>" wu_params
        "\<lparr>r_steps = 4294967295, mu_steps = 4294967295, nu_steps = 3\<rparr>"
        "plain_request\<lparr>nonResponsive := True\<rparr>" EffectiveAreaLessThanArea
        "\<lparr>r = 4294967295, mu = 4294967295, nu = 3, area = 18446744065119617025,
        nChunkEstimate = 2141613463, nChunk = 1, chunkSize = 0, extra = 4294967295,
        effectiveArea = 0, local0 = 64, global0 = 0\<rparr>"]
  by (simp add: example_defs plan_defs clampLoop.simps)

section \<open>Forced single chunk\<close>

lemma two_power_not_one: "j > 0 \<Longrightarrow> (2 :: 64 word) ^ j \<noteq> 1"
proof
  assume "j > 0" and e: "(2 :: 64 word) ^ j = 1"
  then obtain i where "j = Suc i" by (cases j) auto
  then have "(2 :: 64 word) dvd 2 ^ j" by simp
  then have "(2 :: 64 word) dvd 1" using e by simp
  then show False by simp
qed

lemma two_power_less_64: "(2 :: 64 word) ^ j \<noteq> 0 \<Longrightarrow> j < 64"
proof (rule ccontr)
  assume "\<not> j < 64"
  then have "(2 :: 64 word) ^ j = 0" by (simp add: not_less)
  moreover assume "(2 :: 64 word) ^ j \<noteq> 0"
  ultimately show False by simp
qed

lemma word_greater_one:
  fixes x :: "64 word"
  assumes "x \<noteq> 0" and "x \<noteq> 1"
  shows "1 < x"
proof -
  have "unat x \<noteq> 0" using assms(1) by (simp add: unat_eq_zero)
  moreover have "unat x \<noteq> 1" using assms(2) by (metis unat_1 word_unat_eq_iff)
  ultimately have "1 < unat x" by linarith
  then show ?thesis by (simp add: word_less_nat_alt)
qed

text \<open>A plan whose chunk count was 1 at line 223 is sized from the block size; the clamp
  then leaves it alone or doubles the count.\<close>

lemma collapsed_plan:
  assumes p: "padToChunks force bs s1 = Inr s2"
    and n2: "nChunk s2 = 1"
    and c: "clampChunks m bs s2 = Planned s3"
  shows "effectiveArea s3 = bs * mwDivRoundup (area s3) bs
         \<and> (effectiveArea s3 \<le> m \<longrightarrow> nChunk s3 = 1 \<and> chunkSize s3 = effectiveArea s3)
         \<and> (m < effectiveArea s3
              \<longrightarrow> 1 < nChunk s3 \<and> (\<exists>j. 0 < j \<and> j < 64 \<and> nChunk s3 = 2 ^ j)
                  \<and> chunkSize s3 = effectiveArea s3 div nChunk s3 \<and> chunkSize s3 \<le> m)"
proof -
  note pf = padToChunks_Inr [OF p]
  have e2: "effectiveArea s2 = bs * mwDivRoundup (area s2) bs"
    and c2: "chunkSize s2 = effectiveArea s2" using pf(12) pf(7) n2 by simp_all
  have fr: "area s3 = area s2" "effectiveArea s3 = effectiveArea s2"
    using clampChunks_frame [of m bs s2 s3] c by simp_all
  show ?thesis
  proof (cases "m < chunkSize s2")
    case False
    then have "s3 = s2" using clampChunks_Planned [OF c] by auto
    then show ?thesis using n2 e2 c2 False by simp
  next
    case True
    then have l: "clampLoop m s2 = Inr s3" using clampChunks_Planned [OF c] by auto
    from clampLoop_doubles [OF l True] n2 obtain j where
      n0: "nChunk s3 \<noteq> 0" and q: "chunkSize s3 = effectiveArea s2 div nChunk s3"
      and j: "j > 0" "nChunk s3 = 2 ^ j" by auto
    have j64: "j < 64" using n0 j(2) two_power_less_64 [of j] by simp
    have "nChunk s3 \<noteq> 1" using j two_power_not_one [of j] by simp
    then have "1 < nChunk s3" using n0 by (rule word_greater_one [rotated])
    moreover have "\<exists>j. 0 < j \<and> j < 64 \<and> nChunk s3 = 2 ^ j" using j j64 by blast
    moreover have "\<not> effectiveArea s3 \<le> m"
      using True c2 fr by (simp add: not_le)
    moreover have "chunkSize s3 \<le> m" by (rule clampLoop_bound [OF l])
    ultimately show ?thesis using e2 fr q by simp
  qed
qed

text \<open>
  C4, as the code has it. With the non-responsive flag set or the device flagged
  non-output, a successful plan on a device that is not a CPU pads the area to a multiple
  of the block size, and has one chunk exactly when that padded area is no larger than the
  device's work dimension. When it is larger, the clamp of lines 238 to 245 doubles the
  chunk count, which ends as one of the powers of two from \<open>2\<close> to \<open>2 ^ 63\<close>: it is greater
  than 1.
\<close>

theorem forced_single_chunk:
  assumes "findRunSizes env sizes di ap ia clr = Planned rs"
    and "devType di \<noteq> CL_DEVICE_TYPE_CPU"
    and "nonResponsive clr \<or> nonOutput di"
  shows "effectiveArea rs = blockSize env di * mwDivRoundup (area rs) (blockSize env di)
         \<and> (effectiveArea rs \<le> maxWorkDim di \<longrightarrow> nChunk rs = 1)
         \<and> (maxWorkDim di < effectiveArea rs
              \<longrightarrow> 1 < nChunk rs \<and> (\<exists>j. 0 < j \<and> j < 64 \<and> nChunk rs = 2 ^ j))"
proof -
  from assms(1,2) obtain s1 s2 s3 where
    p: "padToChunks (nonResponsive clr \<or> nonOutput di) (blockSize env di) s1 = Inr s2"
    and c: "clampChunks (maxWorkDim di) (blockSize env di) s2 = Planned s3"
    and rs: "rs = s3\<lparr>global0 := chunkSize s3\<rparr>"
    by (rule findRunSizes_Planned)
  have n2: "nChunk s2 = 1" using padToChunks_Inr(11) [OF p] assms(3) by simp
  from collapsed_plan [OF p n2 c] show ?thesis by (simp add: rs)
qed

text \<open>
  C4 as stated fails: 10000 by 5000 steps in non-responsive mode are padded to 50001920
  work items, more than the \<open>256 * 256 * 256\<close> the device takes at once; the plan succeeds
  with 4 chunks.
\<close>

theorem forced_single_chunk_counterexample:
  "findRunSizes plan_env blank_sizes gpu_device wu_params
     \<lparr>r_steps = 5000, mu_steps = 10000, nu_steps = 3\<rparr> (plain_request\<lparr>nonResponsive := True\<rparr>)
   = Planned
       \<lparr>r = 5000, mu = 10000, nu = 3, area = 50000000, nChunkEstimate = 211, nChunk = 4,
        chunkSize = 12500480, extra = 1920, effectiveArea = 50001920, local0 = 64,
        global0 = 12500480\<rparr>
   \<and> devType gpu_device \<noteq> CL_DEVICE_TYPE_CPU
   \<and> nonResponsive (plain_request\<lparr>nonResponsive := True\<rparr>)"
  by (simp add: example_defs plan_defs clampLoop.simps)

text \<open>One chunk for 10000 by 500 steps in non-responsive mode; 4 chunks for 10000 by
  5000 steps on a device flagged non-output.\<close>

theorem forced_single_chunk_witness:
  "findRunSizes plan_env blank_sizes gpu_device wu_params
     \<lparr>r_steps = 500, mu_steps = 10000, nu_steps = 3\<rparr> (plain_request\<lparr>nonResponsive := True\<rparr>)
   = Planned
       \<lparr>r = 500, mu = 10000, nu = 3, area = 5000000, nChunkEstimate = 21, nChunk = 1,
        chunkSize = 5002240, extra = 2240, effectiveArea = 5002240, local0 = 64,
        global0 = 5002240\<rparr>
   \<and> devType gpu_device \<noteq> CL_DEVICE_TYPE_CPU
   \<and> nonResponsive (plain_request\<lparr>nonResponsive := True\<rparr>)
   \<and> (5002240 :: 64 word) \<le> maxWorkDim gpu_device
   \<and> findRunSizes plan_env blank_sizes (gpu_device\<lparr>nonOutput := True\<rparr>) wu_params
       \<lparr>r_steps = 5000, mu_steps = 10000, nu_steps = 3\<rparr> plain_request
     = Planned
       \<lparr>r = 5000, mu = 10000, nu = 3, area = 50000000, nChunkEstimate = 211, nChunk = 4,
        chunkSize = 12500480, extra = 1920, effectiveArea = 50001920, local0 = 64,
        global0 = 12500480\<rparr>
   \<and> nonOutput (gpu_device\<lparr>nonOutput := True\<rparr>)
   \<and> maxWorkDim gpu_device < (50001920 :: 64 word)
   \<and> (1 :: 64 word) < 4 \<and> (2 :: nat) < 64 \<and> (4 :: 64 word) = 2 ^ 2"
  using forced_single_chunk
    [of plan_env blank_sizes gpu_device wu_params
        "\<lparr>r_steps = 500, mu_steps = 10000, nu_steps = 3\<rparr>" "plain_request\<lparr>nonResponsive := True\<rparr>"
        "\<lparr>r = 500, mu = 10000, nu = 3, area = 5000000, nChunkEstimate = 21, nChunk = 1,
        chunkSize = 5002240, extra = 2240, effectiveArea = 5002240, local0 = 64,
        global0 = 5002240\<rparr>"]
    forced_single_chunk
    [of plan_env blank_sizes "gpu_device\<lparr>nonOutput := True\<rparr>" wu_params
        "\<lparr>r_steps = 5000, mu_steps = 10000, nu_steps = 3\<rparr>" plain_request
        "\<lparr>r = 5000, mu = 10000, nu = 3, area = 50000000, nChunkEstimate = 211, nChunk = 4,
        chunkSize = 12500480, extra = 1920, effectiveArea = 50001920, local0 = 64,
        global0 = 12500480\<rparr>"]
  by (simp add: example_defs plan_defs clampLoop.simps)

section \<open>The magic factor override\<close>

text \<open>With more than one chunk of the size set at line 216, and without a wrap of the
  padded area, the plan keeps that chunk size.\<close>

lemma override_kept:
  assumes m: "magicChunkSize est clr bs s0 = Inr s1"
    and p: "padToChunks False bs s1 = Inr s2"
    and lt: "chunkSize s1 < area s1"
    and nowrap: "unat (chunkSize s1) * unat (mwDivRoundup (area s1) (chunkSize s1)) < 2 ^ 64"
  shows "chunkSize s2 = chunkSize s1 \<and> nChunk s2 = mwDivRoundup (area s1) (chunkSize s1)
         \<and> effectiveArea s2 = chunkSize s1 * mwDivRoundup (area s1) (chunkSize s1)"
proof -
  define c where "c = chunkSize s1"
  define a where "a = area s1"
  define k where "k = mwDivRoundup a c"
  note pf = padToChunks_Inr [OF p]
  have c0: "c \<noteq> 0" using pf(2) by (simp add: c_def)
  have nw: "unat c * unat k < 2 ^ 64" using nowrap by (simp add: c_def a_def k_def)
  have l: "unat c < unat a" using lt by (simp add: c_def a_def word_less_nat_alt)
  have "unat a \<le> unat c * unat k" unfolding k_def by (rule unat_mwDivRoundup(1) [OF c0])
  then have ck: "unat c < unat c * unat k" using l by linarith
  have k1: "1 < unat k"
  proof (rule ccontr)
    assume "\<not> 1 < unat k"
    then have "unat k = 0 \<or> unat k = 1" by linarith
    then show False using ck by auto
  qed
  then have kn: "k \<noteq> 0" "k \<noteq> 1" by auto
  have rk: "mwDivRoundup (c * k) c = k" by (rule mwDivRoundup_of_multiple(1) [OF c0 nw])
  have dk: "(c * k) div k = c" by (rule mwDivRoundup_of_multiple(2) [OF c0 nw kn(1)])
  have n2: "nChunk s2 \<noteq> 1"
  proof
    assume one: "nChunk s2 = 1"
    have "nChunk s2 = mwDivRoundup (c * mwDivRoundup a c) c"
      using p pf(1,2)
      by (auto simp: padToChunks_def Let_def c_def a_def split: if_splits)
    then have "nChunk s2 = k" using rk by (simp add: k_def)
    then show False using one kn by simp
  qed
  from pf(13) [OF n2] have "effectiveArea s2 = c * k" and "nChunk s2 = k" and "chunkSize s2 = c"
    using rk dk by (simp_all add: k_def c_def a_def)
  then show ?thesis by (simp add: k_def c_def a_def)
qed

text \<open>When the chunk of line 216 holds the whole area, the chunk count of line 220 is 1
  (or 0, and then line 235 divides by it).\<close>

lemma override_collapses:
  assumes p: "padToChunks force bs s1 = Inr s2"
    and le: "area s1 \<le> chunkSize s1"
  shows "nChunk s2 = 1"
proof (cases force)
  case True
  then show ?thesis using padToChunks_Inr(11) [OF p] by simp
next
  case False
  define c where "c = chunkSize s1"
  define a where "a = area s1"
  define k where "k = mwDivRoundup a c"
  note pf = padToChunks_Inr [OF p]
  have c0: "c \<noteq> 0" using pf(2) by (simp add: c_def)
  have c64: "unat c < 2 ^ 64" using unsigned_less [of c, where 'a = nat] by simp
  have l: "unat a \<le> unat c" using le by (simp add: c_def a_def word_le_nat_alt)
  have "unat c * unat k < unat a + unat c" unfolding k_def by (rule unat_mwDivRoundup(2) [OF c0])
  then have "unat c * unat k < unat c * 2" using l by linarith
  then have "unat k < 2" by simp
  then have "unat k = 0 \<or> unat k = 1" by linarith
  then have k01: "k = 0 \<or> k = 1" by (metis unat_eq_zero unat_1 word_unat_eq_iff)
  have n: "nChunk s2 = 1 \<or> nChunk s2 = mwDivRoundup (c * k) c"
    using p False pf(1,2)
    by (auto simp: padToChunks_def Let_def c_def a_def k_def split: if_splits)
  from k01 show ?thesis
  proof
    assume "k = 0"
    then have "mwDivRoundup (c * k) c = 0" by (simp add: mwDivRoundup_def)
    then show ?thesis using n pf(3) by auto
  next
    assume k1: "k = 1"
    have "mwDivRoundup (c * 1) c = 1"
      by (rule mwDivRoundup_of_multiple(1) [OF c0]) (use c64 in simp)
    then show ?thesis using n k1 by auto
  qed
qed

text \<open>
  C5, as the code has it. A positive magic factor \<open>K\<close> gives chunks of \<open>K\<close> blocks when the
  plan has more than one of them: no single chunk is forced, the area is larger than \<open>K\<close>
  blocks, the area padded to whole chunks fits 64 bits, and \<open>K\<close> blocks are within the
  device's work dimension, so that the clamp leaves the plan alone. The products are
  \<^verbatim>\<open>size_t\<close> products. When a single chunk is forced, or \<open>K\<close> blocks hold the whole area,
  the magic factor is dropped (lines 223 to 229): the effective area is the area padded
  to whole blocks; it is the one chunk of the plan when it is within the work dimension,
  and otherwise the clamp doubles the chunk count and the chunk size is the effective
  area divided by that count, rounded down.
\<close>

theorem magic_factor_override:
  assumes "findRunSizes env sizes di ap ia clr = Planned rs"
    and "devType di \<noteq> CL_DEVICE_TYPE_CPU"
    and "0 < sint (magicFactor clr)"
  shows "(\<not> nonResponsive clr \<and> \<not> nonOutput di
          \<and> ucast (magicFactor clr) * blockSize env di
              < ucast (r_steps ia) * ucast (mu_steps ia)
          \<and> unat (ucast (magicFactor clr) * blockSize env di)
              * unat (mwDivRoundup (ucast (r_steps ia) * ucast (mu_steps ia))
                        (ucast (magicFactor clr) * blockSize env di)) < 2 ^ 64
          \<and> ucast (magicFactor clr) * blockSize env di \<le> maxWorkDim di
          \<longrightarrow> chunkSize rs = ucast (magicFactor clr) * blockSize env di
              \<and> nChunk rs = mwDivRoundup (area rs) (chunkSize rs)
              \<and> effectiveArea rs = chunkSize rs * nChunk rs)
         \<and> (nonResponsive clr \<or> nonOutput di
              \<or> ucast (r_steps ia) * ucast (mu_steps ia)
                  \<le> ucast (magicFactor clr) * blockSize env di
            \<longrightarrow> effectiveArea rs
                  = blockSize env di * mwDivRoundup (area rs) (blockSize env di)
                \<and> (effectiveArea rs \<le> maxWorkDim di
                     \<longrightarrow> nChunk rs = 1 \<and> chunkSize rs = effectiveArea rs)
                \<and> (maxWorkDim di < effectiveArea rs
                     \<longrightarrow> 1 < nChunk rs \<and> chunkSize rs = effectiveArea rs div nChunk rs
                         \<and> chunkSize rs \<le> maxWorkDim di))"
proof -
  define c where "c = (ucast (magicFactor clr) :: 64 word) * blockSize env di"
  define a where "a = (ucast (r_steps ia) :: 64 word) * ucast (mu_steps ia)"
  from assms(1,2) obtain s1 s2 s3 where
    m: "magicChunkSize (findNChunk env ap ia di clr) clr (blockSize env di)
           (sizes\<lparr>r := r_steps ia, mu := mu_steps ia, nu := nu_steps ia,
                   area := ucast (r_steps ia) * ucast (mu_steps ia),
                   local0 := ucast (warpSize di)\<rparr>) = Inr s1"
    and p: "padToChunks (nonResponsive clr \<or> nonOutput di) (blockSize env di) s1 = Inr s2"
    and cl: "clampChunks (maxWorkDim di) (blockSize env di) s2 = Planned s3"
    and rs: "rs = s3\<lparr>global0 := chunkSize s3\<rparr>"
    by (rule findRunSizes_Planned)
  from m obtain n magic :: "32 word" where
    s1: "s1 = sizes\<lparr>r := r_steps ia, mu := mu_steps ia, nu := nu_steps ia,
                   area := ucast (r_steps ia) * ucast (mu_steps ia),
                   local0 := ucast (warpSize di), nChunkEstimate := ucast n,
                   chunkSize := ucast magic * blockSize env di\<rparr>"
    and mg: "0 < sint (magicFactor clr) \<longrightarrow> magic = magicFactor clr"
    by (rule magicChunkSize_Inr) blast
  have c1: "chunkSize s1 = c" and a1: "area s1 = a"
    using s1 mg assms(3) by (simp_all add: c_def a_def)
  have a3: "area s3 = a"
    using clampChunks_frame [of "maxWorkDim di" "blockSize env di" s2 s3] cl
      padToChunks_Inr(7) [OF p] a1 by simp
  have kept: "chunkSize rs = c \<and> nChunk rs = mwDivRoundup (area rs) (chunkSize rs)
              \<and> effectiveArea rs = chunkSize rs * nChunk rs"
    if h: "\<not> nonResponsive clr \<and> \<not> nonOutput di \<and> c < a
           \<and> unat c * unat (mwDivRoundup a c) < 2 ^ 64 \<and> c \<le> maxWorkDim di"
  proof -
    have p': "padToChunks False (blockSize env di) s1 = Inr s2" using p h by simp
    have k: "chunkSize s2 = c \<and> nChunk s2 = mwDivRoundup a c
             \<and> effectiveArea s2 = c * mwDivRoundup a c"
      using override_kept [OF m p'] h c1 a1 by simp
    then have "\<not> maxWorkDim di < chunkSize s2" using h by (simp add: not_less)
    then have "s3 = s2" using clampChunks_Planned [OF cl] by auto
    then show ?thesis using k rs a3 by simp
  qed
  have dropped: "effectiveArea rs = blockSize env di * mwDivRoundup (area rs) (blockSize env di)
                \<and> (effectiveArea rs \<le> maxWorkDim di
                     \<longrightarrow> nChunk rs = 1 \<and> chunkSize rs = effectiveArea rs)
                \<and> (maxWorkDim di < effectiveArea rs
                     \<longrightarrow> 1 < nChunk rs \<and> chunkSize rs = effectiveArea rs div nChunk rs
                         \<and> chunkSize rs \<le> maxWorkDim di)"
    if h: "nonResponsive clr \<or> nonOutput di \<or> a \<le> c"
  proof -
    have n2: "nChunk s2 = 1"
    proof (cases "nonResponsive clr \<or> nonOutput di")
      case True
      then show ?thesis using padToChunks_Inr(11) [OF p] by simp
    next
      case False
      then have "area s1 \<le> chunkSize s1" using h c1 a1 by simp
      then show ?thesis by (rule override_collapses [OF p])
    qed
    have f: "effectiveArea rs = effectiveArea s3" "area rs = area s3" "nChunk rs = nChunk s3"
      "chunkSize rs = chunkSize s3" by (simp_all add: rs)
    from collapsed_plan [OF p n2 cl] show ?thesis unfolding f by blast
  qed
  show ?thesis using kept dropped unfolding c_def a_def by blast
qed


text \<open>
  C5 as stated fails: with a magic factor of 2000 a chunk of 10240000 work items would
  hold the whole area of 5000000, the chunk count is 1, and the plan is resized to the
  area padded to blocks of 5120: the chunk size is 5002240. The chunk of 10240000 would
  have been within the work dimension; the clamp plays no part.
\<close>

theorem magic_factor_override_counterexample:
  "findRunSizes plan_env blank_sizes gpu_device wu_params
     \<lparr>r_steps = 500, mu_steps = 10000, nu_steps = 3\<rparr> (plain_request\<lparr>magicFactor := 2000\<rparr>)
   = Planned
       \<lparr>r = 500, mu = 10000, nu = 3, area = 5000000, nChunkEstimate = 21, nChunk = 1,
        chunkSize = 5002240, extra = 2240, effectiveArea = 5002240, local0 = 64,
        global0 = 5002240\<rparr>
   \<and> ucast (magicFactor (plain_request\<lparr>magicFactor := 2000\<rparr>)) * blockSize plan_env gpu_device
       = 10240000
   \<and> (10240000 :: 64 word) \<le> maxWorkDim gpu_device
   \<and> devType gpu_device \<noteq> CL_DEVICE_TYPE_CPU"
  by (simp add: example_defs plan_defs)

text \<open>With a magic factor of 100 the same area is planned as 10 chunks of 512000. With
  a magic factor of 20000, a chunk of 102400000 work items would hold the area of 10000
  by 5000 steps: the area is padded to blocks instead, to 50001920 work items, more than
  the work dimension of 16777216, and the clamp makes 4 chunks of it.\<close>

theorem magic_factor_override_witness:
  "findRunSizes plan_env blank_sizes gpu_device wu_params
     \<lparr>r_steps = 500, mu_steps = 10000, nu_steps = 3\<rparr> (plain_request\<lparr>magicFactor := 100\<rparr>)
   = Planned
       \<lparr>r = 500, mu = 10000, nu = 3, area = 5000000, nChunkEstimate = 21, nChunk = 10,
        chunkSize = 512000, extra = 120000, effectiveArea = 5120000, local0 = 64,
        global0 = 512000\<rparr>
   \<and> devType gpu_device \<noteq> CL_DEVICE_TYPE_CPU
   \<and> 0 < sint (magicFactor (plain_request\<lparr>magicFactor := 100\<rparr>))
   \<and> \<not> nonResponsive (plain_request\<lparr>magicFactor := 100\<rparr>) \<and> \<not> nonOutput gpu_device
   \<and> ucast (magicFactor (plain_request\<lparr>magicFactor := 100\<rparr>)) * blockSize plan_env gpu_device
       = 512000
   \<and> (512000 :: 64 word) < ucast (500 :: 32 word) * ucast (10000 :: 32 word)
   \<and> unat (512000 :: 64 word) * unat (mwDivRoundup 5000000 (512000 :: 64 word)) < 2 ^ 64
   \<and> (512000 :: 64 word) \<le> maxWorkDim gpu_device
   \<and> mwDivRoundup 5000000 (512000 :: 64 word) = 10
   \<and> (5120000 :: 64 word) = 512000 * 10
   \<and> findRunSizes plan_env blank_sizes gpu_device wu_params
       \<lparr>r_steps = 5000, mu_steps = 10000, nu_steps = 3\<rparr> (plain_request\<lparr>magicFactor := 20000\<rparr>)
     = Planned
       \<lparr>r = 5000, mu = 10000, nu = 3, area = 50000000, nChunkEstimate = 211, nChunk = 4,
        chunkSize = 12500480, extra = 1920, effectiveArea = 50001920, local0 = 64,
        global0 = 12500480\<rparr>
   \<and> 0 < sint (magicFactor (plain_request\<lparr>magicFactor := 20000\<rparr>))
   \<and> ucast (5000 :: 32 word) * ucast (10000 :: 32 word)
       \<le> ucast (magicFactor (plain_request\<lparr>magicFactor := 20000\<rparr>))
           * blockSize plan_env gpu_device
   \<and> (50001920 :: 64 word) = blockSize plan_env gpu_device * mwDivRoundup 50000000 5120
   \<and> maxWorkDim gpu_device < (50001920 :: 64 word)
   \<and> (1 :: 64 word) < 4
   \<and> (12500480 :: 64 word) = 50001920 div 4
   \<and> (12500480 :: 64 word) \<le> maxWorkDim gpu_device
   \<and> findRunSizes plan_env blank_sizes gpu_device wu_params
       \<lparr>r_steps = 500, mu_steps = 10000, nu_steps = 3\<rparr> (plain_request\<lparr>magicFactor := 2000\<rparr>)
     = Planned
       \<lparr>r = 500, mu = 10000, nu = 3, area = 5000000, nChunkEstimate = 21, nChunk = 1,
        chunkSize = 5002240, extra = 2240, effectiveArea = 5002240, local0 = 64,
        global0 = 5002240\<rparr>
   \<and> (5002240 :: 64 word) \<le> maxWorkDim gpu_device"
  using magic_factor_override
    [of plan_env blank_sizes gpu_device wu_params
        "\<lparr>r_steps = 500, mu_steps = 10000, nu_steps = 3\<rparr>" "plain_request\<lparr>magicFactor := 100\<rparr>"
        "\<lparr>r = 500, mu = 10000, nu = 3, area = 5000000, nChunkEstimate = 21, nChunk = 10,
        chunkSize = 512000, extra = 120000, effectiveArea = 5120000, local0 = 64,
        global0 = 512000\<rparr>"]
    magic_factor_override
    [of plan_env blank_sizes gpu_device wu_params
        "\<lparr>r_steps = 5000, mu_steps = 10000, nu_steps = 3\<rparr>"
        "plain_request\<lparr>magicFactor := 20000\<rparr>"
        "\<lparr>r = 5000, mu = 10000, nu = 3, area = 50000000, nChunkEstimate = 211, nChunk = 4,
        chunkSize = 12500480, extra = 1920, effectiveArea = 50001920, local0 = 64,
        global0 = 12500480\<rparr>"]
    magic_factor_override
    [of plan_env blank_sizes gpu_device wu_params
        "\<lparr>r_steps = 500, mu_steps = 10000, nu_steps = 3\<rparr>" "plain_request\<lparr>magicFactor := 2000\<rparr>"
        "\<lparr>r = 500, mu = 10000, nu = 3, area = 5000000, nChunkEstimate = 21, nChunk = 1,
        chunkSize = 5002240, extra = 2240, effectiveArea = 5002240, local0 = 64,
        global0 = 5002240\<rparr>"]
  by (simp add: example_defs plan_defs clampLoop.simps)

section \<open>Chunks are whole wavefronts\<close>













text \<open>
  Why the theorem asks for a block size that does not wrap around and for a work
  dimension that is not zero. These are devices no one has. With a warp size of 3, a
  work group size of \<open>3 * 2 ^ 62\<close> and 7 compute units the block size \<open>2 ^ 62 * 3 * 7\<close> is
  \<open>2 ^ 62\<close> in 64 bits, and the plan for a single work item succeeds with a chunk of
  \<open>2 ^ 62\<close> work items, which is not a multiple of 3. With a work-item size of 0 the clamp
  doubles the chunk count of any area until the chunk size is 0.
\<close>

lemma degenerate_devices:
  "findRunSizes (plan_env\<lparr>mwGetWorkGroupInfo := (0, \<lparr>wgs = 13835058055282163712\<rparr>)\<rparr>) blank_sizes
     (gpu_device\<lparr>warpSize := 3, maxCompUnits := 7,
                  maxWorkItemSizes := (4611686018427387904, 1, 1)\<rparr>)
     wu_params \<lparr>r_steps = 1, mu_steps = 1, nu_steps = 1\<rparr> (plain_request\<lparr>magicFactor := 1\<rparr>)
   = Planned
       \<lparr>r = 1, mu = 1, nu = 1, area = 1, nChunkEstimate = 1, nChunk = 1,
        chunkSize = 4611686018427387904, extra = 4294967295,
        effectiveArea = 4611686018427387904, local0 = 3, global0 = 4611686018427387904\<rparr>
   \<and> (4611686018427387904 :: 64 word) mod 3 = 1
   \<and> findRunSizes plan_env blank_sizes (gpu_device\<lparr>maxWorkItemSizes := (0, 1, 1)\<rparr>) wu_params
       \<lparr>r_steps = 500, mu_steps = 10000, nu_steps = 3\<rparr> (plain_request\<lparr>nonResponsive := True\<rparr>)
     = Planned
       \<lparr>r = 500, mu = 10000, nu = 3, area = 5000000, nChunkEstimate = 21, nChunk = 8388608,
        chunkSize = 0, extra = 2240, effectiveArea = 5002240, local0 = 64, global0 = 0\<rparr>"
  by (simp add: example_defs plan_defs clampLoop.simps)

section \<open>Chunks and the effective area\<close>

text \<open>
  In every successful plan the chunk size is the quotient of the effective area by the
  chunk count, rounded down, and the effective area covers the area. So the chunks make
  up the effective area exactly when the chunk count divides it.
\<close>

lemma planned_chunk_is_quotient:
  assumes "findRunSizes env sizes di ap ia clr = Planned rs"
  shows "nChunk rs \<noteq> 0 \<and> chunkSize rs = effectiveArea rs div nChunk rs
         \<and> area rs \<le> effectiveArea rs"
proof (cases "devType di = CL_DEVICE_TYPE_CPU")
  case True
  have "mu_steps ia \<noteq> 0"
    using assms by (auto simp: findRunSizes_def Let_def split: if_splits)
  from findRunSizes_cpu [OF True this, of env sizes ap clr] assms show ?thesis by auto
next
  case False
  from assms False obtain s1 s2 s3 where
    pd: "padToChunks (nonResponsive clr \<or> nonOutput di) (blockSize env di) s1 = Inr s2"
    and cl: "clampChunks (maxWorkDim di) (blockSize env di) s2 = Planned s3"
    and rs: "rs = s3\<lparr>global0 := chunkSize s3\<rparr>"
    and cover: "area s3 \<le> effectiveArea s3"
    by (rule findRunSizes_Planned)
  note pf = padToChunks_Inr [OF pd]
  have q2: "chunkSize s2 = effectiveArea s2 div nChunk s2"
    using pf(12,13) by (cases "nChunk s2 = 1") simp_all
  have "nChunk s3 \<noteq> 0 \<and> chunkSize s3 = effectiveArea s3 div nChunk s3"
  proof (cases "maxWorkDim di < chunkSize s2")
    case True
    then have l: "clampLoop (maxWorkDim di) s2 = Inr s3" using clampChunks_Planned [OF cl] by auto
    from clampLoop_doubles [OF l True] clampLoop_frame [OF l] show ?thesis by simp
  next
    case False
    then have "s3 = s2" using clampChunks_Planned [OF cl] by auto
    then show ?thesis using q2 pf(3) by simp
  qed
  then show ?thesis using rs cover by simp
qed

text \<open>When the clamp loop has not run, the chunk count does divide the effective area:
  the product can only fall short after the count has been doubled.\<close>

lemma planned_product_unless_clamped:
  assumes "findRunSizes env sizes di ap ia clr = Planned rs"
  shows "chunkSize rs * nChunk rs = effectiveArea rs
         \<or> (\<exists>n j. j > 0 \<and> n \<noteq> 0 \<and> maxWorkDim di < effectiveArea rs div n
                   \<and> nChunk rs = n * 2 ^ j)"
proof (cases "devType di = CL_DEVICE_TYPE_CPU")
  case True
  have "mu_steps ia \<noteq> 0"
    using assms by (auto simp: findRunSizes_def Let_def split: if_splits)
  from findRunSizes_cpu [OF True this, of env sizes ap clr] assms show ?thesis by auto
next
  case False
  from assms False obtain s1 s2 s3 where
    pd: "padToChunks (nonResponsive clr \<or> nonOutput di) (blockSize env di) s1 = Inr s2"
    and cl: "clampChunks (maxWorkDim di) (blockSize env di) s2 = Planned s3"
    and rs: "rs = s3\<lparr>global0 := chunkSize s3\<rparr>"
    by (rule findRunSizes_Planned)
  note pf = padToChunks_Inr [OF pd]
  have q2: "chunkSize s2 = effectiveArea s2 div nChunk s2"
    using pf(12,13) by (cases "nChunk s2 = 1") simp_all
  show ?thesis
  proof (cases "maxWorkDim di < chunkSize s2")
    case True
    then have l: "clampLoop (maxWorkDim di) s2 = Inr s3" using clampChunks_Planned [OF cl] by auto
    from clampLoop_doubles [OF l True] obtain j where "j > 0" "nChunk s3 = nChunk s2 * 2 ^ j"
      by auto
    moreover have "maxWorkDim di < effectiveArea s3 div nChunk s2"
      using True q2 clampLoop_frame [OF l] by simp
    ultimately have "\<exists>n j. j > 0 \<and> n \<noteq> 0 \<and> maxWorkDim di < effectiveArea rs div n
                   \<and> nChunk rs = n * 2 ^ j"
      using pf(3) rs by auto
    then show ?thesis by simp
  next
    case nc: False
    then have e: "s3 = s2" using clampChunks_Planned [OF cl] by auto
    have "chunkSize s2 * nChunk s2 = effectiveArea s2"
    proof (cases "nChunk s2 = 1")
      case True
      then show ?thesis using pf(12) by simp
    next
      case False
      have c0: "chunkSize s1 \<noteq> 0" by (rule pf(2))
      from pf(13) [OF False]
      have ea: "effectiveArea s2 = chunkSize s1 * mwDivRoundup (area s1) (chunkSize s1)"
        and n2: "nChunk s2 = mwDivRoundup (effectiveArea s2) (chunkSize s1)"
        and cs: "chunkSize s2 = effectiveArea s2 div nChunk s2" by simp_all
      have h0: "mwDivRoundup (chunkSize s1 * mwDivRoundup (area s1) (chunkSize s1)) (chunkSize s1)
                  \<noteq> 0"
        and h1: "mwDivRoundup (chunkSize s1 * mwDivRoundup (area s1) (chunkSize s1)) (chunkSize s1)
                  \<noteq> 1"
        using n2 ea pf(3) False by simp_all
      have "nChunk s2 = mwDivRoundup (area s1) (chunkSize s1)"
        unfolding n2 ea by (rule chunk_count_exact(2) [OF c0 h0 h1])
      moreover have "chunkSize s2 = chunkSize s1"
        unfolding cs n2 ea by (rule chunk_count_exact(3) [OF c0 h0 h1])
      ultimately show ?thesis using ea by simp
    qed
    then show ?thesis using e rs by simp
  qed
qed

text \<open>
  C1. The chunks of a successful plan are to make up the effective area, also after the
  clamp has doubled the chunk count. On the example device in non-responsive mode, an
  area of 5120 by 7680205 steps is a multiple of the block size and is not padded; the
  single chunk is larger than the work dimension and the count is doubled twelve times.
  4096 does not divide the area: the quotient 9600256 is a multiple of 64, so the test
  of line 247 passes and the plan succeeds, and 4096 chunks of 9600256 work items are
  1024 work items short of the effective area.
\<close>

theorem findRunSizes_clamp_loses_work_items:
  "findRunSizes plan_env blank_sizes gpu_device wu_params
     \<lparr>r_steps = 7680205, mu_steps = 5120, nu_steps = 3\<rparr> (plain_request\<lparr>nonResponsive := True\<rparr>)
   = Planned
       \<lparr>r = 7680205, mu = 5120, nu = 3, area = 39322649600, nChunkEstimate = 166584,
        nChunk = 4096, chunkSize = 9600256, extra = 0, effectiveArea = 39322649600,
        local0 = 64, global0 = 9600256\<rparr>
   \<and> (9600256 :: 64 word) * 4096 = 39322648576
   \<and> (9600256 :: 64 word) * 4096 \<noteq> 39322649600"
  by (simp add: example_defs plan_defs clampLoop.simps)

end
